theory Spec2Isabelle
  imports Complex_Main
begin

section \<open>JavaScript values\<close>

text \<open>
  The worker handles untyped JSON: request bodies, the embedding provider's reply and the
  metadata objects are whatever the peer sent.  A value is therefore one of the JavaScript
  value kinds the handlers can meet.  Objects are association lists in insertion order,
  read at the first entry of a key (the keys of a JavaScript object are distinct); the
  engine's reordering of integer-like keys is not modelled.  \<open>JFun\<close> stands for a built-in
  method found on a prototype.

  A number is a double.  The handlers compute with none: a number is read from JSON
  text, handed on, and written as JSON text.  \<open>JNum q\<close> is a finite double other than
  negative zero, carried as the rational \<open>q\<close> it denotes, the rounding of a literal to
  a double having happened where the text was read.  \<open>JSpecial\<close> holds the doubles that
  JSON text does not carry back: \<open>JSON.parse\<close> reads a literal beyond the range of
  doubles, such as \<open>1e400\<close>, as \<open>Infinity\<close> and the literal \<open>-0\<close> as negative zero.
\<close>

datatype special = NaN | PosInfinity | NegInfinity | NegZero

datatype jsval =
    JUndefined
  | JNull
  | JBool bool
  | JNum rat
  | JSpecial special
  | JStr string
  | JArr "jsval list"
  | JObj "(string \<times> jsval) list"
  | JFun string

text \<open>A thrown exception.  \<open>Error m\<close> carries its message; the messages of the
  engine's own \<open>TypeError\<close>, \<open>SyntaxError\<close> and \<open>RangeError\<close> are the engine's.\<close>

datatype exn = TypeError | SyntaxError | RangeError | Error string

text \<open>Truthiness, as tested by \<open>!v\<close>, \<open>if (v)\<close> and \<open>v || w\<close>.\<close>

fun truthy :: "jsval \<Rightarrow> bool" where
  "truthy JUndefined = False"
| "truthy JNull = False"
| "truthy (JBool b) = b"
| "truthy (JNum n) = (n \<noteq> 0)"
| "truthy (JSpecial d) = (d = PosInfinity \<or> d = NegInfinity)"
| "truthy (JStr s) = (s \<noteq> [])"
| "truthy (JArr xs) = True"
| "truthy (JObj kvs) = True"
| "truthy (JFun f) = True"

text \<open>\<open>typeof v === 'string'\<close>\<close>

fun is_string :: "jsval \<Rightarrow> bool" where
  "is_string (JStr s) = True"
| "is_string v = False"

text \<open>\<open>Array.isArray(v)\<close>\<close>

fun isArray :: "jsval \<Rightarrow> bool" where
  "isArray (JArr xs) = True"
| "isArray v = False"

fun is_nullish :: "jsval \<Rightarrow> bool" where
  "is_nullish JUndefined = True"
| "is_nullish JNull = True"
| "is_nullish v = False"

text \<open>Decimal rendering of an array index, the property key of an element.\<close>

definition digit :: "nat \<Rightarrow> char" where
  "digit d = ''0123456789'' ! d"

function dec :: "nat \<Rightarrow> string" where
  "dec n = (if n < 10 then [digit n] else dec (n div 10) @ [digit (n mod 10)])"
  by pat_completeness auto
termination
  by (relation "measure (\<lambda>n. n)") auto

declare dec.simps [simp del]

text \<open>
  The own enumerable properties of a value, in order: what object spread copies and what
  a keyed read finds first.  An array or a string exposes its elements under their
  indices.
\<close>

fun own_props :: "jsval \<Rightarrow> (string \<times> jsval) list" where
  "own_props (JObj kvs) = kvs"
| "own_props (JArr xs) = zip (map dec [0..<length xs]) xs"
| "own_props (JStr s) = zip (map dec [0..<length s]) (map (\<lambda>c. JStr [c]) s)"
| "own_props v = []"

text \<open>
  Properties that are not own enumerable ones.  Of the keys this program reads
  (\<open>text\<close>, \<open>metadata\<close>, \<open>query\<close>, \<open>topK\<close>, \<open>filter\<close>, \<open>data\<close>, \<open>embedding\<close>,
  \<open>timestamp\<close>, \<open>length\<close> and index \<open>0\<close>) only \<open>length\<close> of arrays and strings and the
  array method \<open>filter\<close> exist there.
\<close>

fun inherited :: "jsval \<Rightarrow> string \<Rightarrow> jsval" where
  "inherited (JArr xs) k =
     (if k = ''length'' then JNum (of_nat (length xs))
      else if k = ''filter'' then JFun ''filter'' else JUndefined)"
| "inherited (JStr s) k =
     (if k = ''length'' then JNum (of_nat (length s)) else JUndefined)"
| "inherited v k = JUndefined"

text \<open>\<open>v[k]\<close> on a value that is neither \<open>null\<close> nor \<open>undefined\<close>.\<close>

definition property :: "jsval \<Rightarrow> string \<Rightarrow> jsval" where
  "property v k = (case map_of (own_props v) k of Some x \<Rightarrow> x | None \<Rightarrow> inherited v k)"

text \<open>\<open>v.k\<close>: reading a property of \<open>null\<close> or \<open>undefined\<close> throws.\<close>

definition get_prop :: "jsval \<Rightarrow> string \<Rightarrow> exn + jsval" where
  "get_prop v k = (if is_nullish v then Inl TypeError else Inr (property v k))"

text \<open>\<open>v?.k\<close>\<close>

definition opt_prop :: "jsval \<Rightarrow> string \<Rightarrow> jsval" where
  "opt_prop v k = (if is_nullish v then JUndefined else property v k)"

text \<open>Assigning one property: an existing key keeps its place, a new key goes last.\<close>

fun set_prop :: "string \<Rightarrow> jsval \<Rightarrow> (string \<times> jsval) list \<Rightarrow> (string \<times> jsval) list" where
  "set_prop k v [] = [(k, v)]"
| "set_prop k v ((k', v') # kvs) =
     (if k' = k then (k, v) # kvs else (k', v') # set_prop k v kvs)"

text \<open>\<open>{ ...base, ...m }\<close>: the own properties of \<open>m\<close> are assigned in order.\<close>

definition spread :: "(string \<times> jsval) list \<Rightarrow> jsval \<Rightarrow> (string \<times> jsval) list" where
  "spread base m = foldl (\<lambda>acc (k, v). set_prop k v acc) base (own_props m)"

text \<open>\<open>s.startsWith(p)\<close>, \<open>s.substring(a, b)\<close> for \<open>a \<le> b\<close>, \<open>s.slice(a)\<close>\<close>

definition startsWith :: "string \<Rightarrow> string \<Rightarrow> bool" where
  "startsWith s p = (take (length p) s = p)"

definition substring :: "nat \<Rightarrow> nat \<Rightarrow> string \<Rightarrow> string" where
  "substring a b s = take (b - a) (drop a s)"

definition slice :: "nat \<Rightarrow> string \<Rightarrow> string" where
  "slice a s = drop a s"

section \<open>JSON text\<close>

text \<open>
  What \<open>JSON.stringify\<close> writes for a value: a property whose value is \<open>undefined\<close> or
  a function is left out, such an array element is written as \<open>null\<close>; a number that
  is not finite is written as \<open>null\<close>, negative zero as \<open>0\<close>.
\<close>

fun unserialisable :: "jsval \<Rightarrow> bool" where
  "unserialisable JUndefined = True"
| "unserialisable (JFun f) = True"
| "unserialisable v = False"

fun json_of :: "jsval \<Rightarrow> jsval"
  and json_props :: "(string \<times> jsval) list \<Rightarrow> (string \<times> jsval) list"
  and json_elems :: "jsval list \<Rightarrow> jsval list" where
  "json_of (JObj kvs) = JObj (json_props kvs)"
| "json_of (JArr xs) = JArr (json_elems xs)"
| "json_of JUndefined = JUndefined"
| "json_of JNull = JNull"
| "json_of (JBool b) = JBool b"
| "json_of (JNum n) = JNum n"
| "json_of (JSpecial d) = (if d = NegZero then JNum 0 else JNull)"
| "json_of (JStr s) = JStr s"
| "json_of (JFun f) = JFun f"
| "json_props [] = []"
| "json_props ((k, v) # kvs) =
     (if unserialisable v then json_props kvs else (k, json_of v) # json_props kvs)"
| "json_elems [] = []"
| "json_elems (x # xs) =
     (if unserialisable x then JNull else json_of x) # json_elems xs"

text \<open>
  A value that JSON text carries as it is: \<open>undefined\<close>, functions and the special
  doubles occur nowhere in it, so that writing it and reading it back gives the same
  value.
\<close>

fun is_json :: "jsval \<Rightarrow> bool"
  and is_json_props :: "(string \<times> jsval) list \<Rightarrow> bool"
  and is_json_elems :: "jsval list \<Rightarrow> bool" where
  "is_json (JObj kvs) = is_json_props kvs"
| "is_json (JArr xs) = is_json_elems xs"
| "is_json JUndefined = False"
| "is_json JNull = True"
| "is_json (JBool b) = True"
| "is_json (JNum n) = True"
| "is_json (JSpecial d) = False"
| "is_json (JStr s) = True"
| "is_json (JFun f) = False"
| "is_json_props [] = True"
| "is_json_props ((k, v) # kvs) = (is_json v \<and> is_json_props kvs)"
| "is_json_elems [] = True"
| "is_json_elems (x # xs) = (is_json x \<and> is_json_elems xs)"

text \<open>
  A string of the program that is only ever produced by \<open>JSON.stringify\<close> or consumed by
  \<open>JSON.parse\<close> is represented by the value it parses to: \<open>JsonText j\<close> is a text that
  parses to \<open>j\<close> (indentation and a trailing newline do not matter), \<open>PlainText s\<close> is
  the text \<open>s\<close>, which is not JSON.
\<close>

datatype jtext = JsonText jsval | PlainText string

definition JSON_stringify :: "jsval \<Rightarrow> jtext" where
  "JSON_stringify v = JsonText (json_of v)"

fun JSON_parse :: "jtext \<Rightarrow> exn + jsval" where
  "JSON_parse (JsonText j) = Inr j"
| "JSON_parse (PlainText s) = Inl SyntaxError"

text \<open>The empty string, which \<open>!data\<close> takes for absent as it does \<open>null\<close>.\<close>

fun empty_text :: "jtext \<Rightarrow> bool" where
  "empty_text (PlainText s) = (s = [])"
| "empty_text (JsonText j) = False"

section \<open>Requests, responses and the outside world\<close>

record response =
  status :: nat
  headers :: "(string \<times> string) list"
  body :: jtext

text \<open>
  \<open>new Response(body, {status, headers})\<close> with a body: the constructor throws a
  \<open>RangeError\<close> for a status outside 200..599 and a \<open>TypeError\<close> for a status that
  admits no body.
\<close>

definition null_body_status :: "nat \<Rightarrow> bool" where
  "null_body_status st = (st \<in> {101, 103, 204, 205, 304})"

definition new_Response :: "jtext \<Rightarrow> nat \<Rightarrow> (string \<times> string) list \<Rightarrow> exn + response" where
  "new_Response b st hs =
     (if st < 200 \<or> 599 < st then Inl RangeError
      else if null_body_status st then Inl TypeError
      else Inr \<lparr>status = st, headers = hs, body = b\<rparr>)"

text \<open>
  The incoming request as the handlers read it: \<open>request.headers.get('Authorization')\<close>
  (\<open>None\<close> for \<open>null\<close>; the platform hands a header value over without leading or
  trailing whitespace) and the outcome of \<open>request.json()\<close>, a rejection or the parsed
  body.
\<close>

record request =
  Authorization :: "string option"
  json :: "exn + jsval"

text \<open>
  The call to the embedding provider, and what comes back: the status and the outcomes
  of \<open>response.text()\<close> and \<open>response.json()\<close>.
\<close>

record fetch_init =
  url :: string
  method_of :: string
  headers_of :: "(string \<times> string) list"
  body_of :: jtext

record upstream =
  up_status :: nat
  up_text :: "exn + string"
  up_json :: "exn + jsval"

definition ok :: "upstream \<Rightarrow> bool" where
  "ok r = (200 \<le> up_status r \<and> up_status r \<le> 299)"

text \<open>
  The ambient functions of the runtime: the global \<open>fetch\<close>, the string
  \<open>Math.random().toString(36)\<close>, the string \<open>new Date().toISOString()\<close>, and the text
  conversions used only inside error messages (\<open>JSON.stringify\<close> as characters, the
  conversion of a template literal, the message of an engine error).
\<close>

record runtime =
  fetch :: "fetch_init \<Rightarrow> exn + upstream"
  random36 :: string
  now_iso :: string
  stringify_chars :: "jsval \<Rightarrow> string"
  template_chars :: "jsval \<Rightarrow> string"
  engine_message :: "exn \<Rightarrow> string"

fun message :: "runtime \<Rightarrow> exn \<Rightarrow> string" where
  "message rt (Error m) = m"
| "message rt e = engine_message rt e"

text \<open>
  The Vectorize binding.  Its methods are typed as the platform declares them: a vector
  has an id, values and metadata; a match has an id, a score and maybe metadata
  (\<open>JUndefined\<close> when absent).  A method either throws or returns; the writes return the
  new state of the index.  \<open>query\<close> returns the \<open>matches\<close> of its result.
\<close>

record vector =
  vec_id :: string
  vec_values :: jsval
  vec_metadata :: jsval

record vmatch =
  match_id :: string
  match_score :: rat
  match_metadata :: jsval

record 's vectorize =
  upsert :: "vector list \<Rightarrow> 's \<Rightarrow> exn + 's"
  getByIds :: "string list \<Rightarrow> 's \<Rightarrow> exn + vector list"
  query :: "jsval \<Rightarrow> jsval \<Rightarrow> 's \<Rightarrow> exn + vmatch list"
  deleteByIds :: "string list \<Rightarrow> 's \<Rightarrow> exn + 's"

text \<open>The KV namespace: \<open>get\<close> yields the stored string or \<open>null\<close>.\<close>

record 's kv_namespace =
  kv_get :: "string \<Rightarrow> 's \<Rightarrow> exn + jtext option"
  kv_put :: "string \<Rightarrow> jtext \<Rightarrow> 's \<Rightarrow> exn + 's"

text \<open>The outbound calls a handler makes, in order.\<close>

datatype call =
    Fetch fetch_init
  | Upsert "vector list"
  | GetByIds "string list"
  | Query jsval jsval
  | DeleteByIds "string list"
  | KvPut string jtext
  | KvGet string

text \<open>
  What a handler does: it returns a response or lets an exception escape (\<open>Inl\<close>), leaves
  the store in some state, and has made some outbound calls.
\<close>

type_synonym 's outcome = "(exn + response) \<times> 's \<times> call list"

section \<open>Steps shared by the handlers\<close>

text \<open>\<open>await request.json().catch(() => ({}))\<close>\<close>

definition json_or_empty :: "request \<Rightarrow> jsval" where
  "json_or_empty request = (case json request of Inl e \<Rightarrow> JObj [] | Inr v \<Rightarrow> v)"

text \<open>A destructuring default, \<open>{ k = d }\<close>: it replaces \<open>undefined\<close> only.\<close>

definition default_to :: "jsval \<Rightarrow> jsval \<Rightarrow> jsval" where
  "default_to v d = (if v = JUndefined then d else v)"

text \<open>The request sent to the embedding provider.\<close>

definition embeddings_call :: "string \<Rightarrow> jsval \<Rightarrow> fetch_init" where
  "embeddings_call auth input =
     \<lparr>url = ''https://api.openai.com/v1/embeddings'',
      method_of = ''POST'',
      headers_of = [(''Authorization'', auth), (''Content-Type'', ''application/json'')],
      body_of = JSON_stringify
        (JObj [(''input'', input), (''model'', JStr ''text-embedding-3-small'')])\<rparr>"

text \<open>\<open>data[0].embedding\<close>\<close>

definition first_embedding :: "jsval \<Rightarrow> exn + jsval" where
  "first_embedding data =
     (case get_prop data ''0'' of
        Inl e \<Rightarrow> Inl e
      | Inr d0 \<Rightarrow> get_prop d0 ''embedding'')"

section \<open>The worker backed by Vectorize\<close>

definition CORS_HEADERS_vectorize :: "(string \<times> string) list" where
  "CORS_HEADERS_vectorize =
     [(''Access-Control-Allow-Origin'', ''*''),
      (''Access-Control-Allow-Methods'', ''GET, POST, DELETE, OPTIONS''),
      (''Access-Control-Allow-Headers'', ''Content-Type, Authorization'')]"

definition jsonResponse_vectorize :: "jsval \<Rightarrow> nat \<Rightarrow> exn + response" where
  "jsonResponse_vectorize data st =
     new_Response (JSON_stringify data) st
       ((''Content-Type'', ''application/json'') # CORS_HEADERS_vectorize)"

definition errorResponse_vectorize :: "string \<Rightarrow> nat \<Rightarrow> exn + response" where
  "errorResponse_vectorize msg st = jsonResponse_vectorize (JObj [(''error'', JStr msg)]) st"

definition handleEmbed_vectorize ::
  "runtime \<Rightarrow> 's vectorize \<Rightarrow> request \<Rightarrow> 's \<Rightarrow> 's outcome" where
  "handleEmbed_vectorize rt V request s =
    (case Authorization request of
       None \<Rightarrow> (errorResponse_vectorize ''Missing Authorization header'' 401, s, [])
     | Some auth \<Rightarrow>
        if \<not> startsWith auth ''Bearer ''
        then (errorResponse_vectorize ''Missing Authorization header'' 401, s, [])
        else let parsed = json_or_empty request in
        if is_nullish parsed then (Inl TypeError, s, [])
        else let text = property parsed ''text'';
                 metadata = default_to (property parsed ''metadata'') (JObj []) in
        if \<not> truthy text \<or> \<not> is_string text
        then (errorResponse_vectorize ''Missing or invalid text field'' 400, s, [])
        else let init = embeddings_call auth text in
        (case fetch rt init of
           Inl e \<Rightarrow> (Inl e, s, [Fetch init])
         | Inr response \<Rightarrow>
            if \<not> ok response
            then (errorResponse_vectorize ''Failed to generate embedding''
                        (up_status response), s, [Fetch init])
            else
            (case up_json response of
               Inl e \<Rightarrow> (Inl e, s, [Fetch init])
             | Inr reply \<Rightarrow>
                if is_nullish reply then (Inl TypeError, s, [Fetch init])
                else let data = property reply ''data'';
                         ident = substring 2 15 (random36 rt) in
                (case first_embedding data of
                   Inl e \<Rightarrow>
                     (errorResponse_vectorize ''Failed to store embedding'' 500,
                      s, [Fetch init])
                 | Inr embedding \<Rightarrow>
                    let stored = \<lparr>vec_id = ident, vec_values = embedding,
                          vec_metadata = JObj (spread
                            [(''text'', text), (''timestamp'', JStr (now_iso rt))]
                            metadata)\<rparr> in
                    (case upsert V [stored] s of
                       Inl e \<Rightarrow>
                         (errorResponse_vectorize ''Failed to store embedding'' 500,
                          s, [Fetch init, Upsert [stored]])
                     | Inr s' \<Rightarrow>
                         (jsonResponse_vectorize (JObj [(''id'', JStr ident)]) 200,
                          s', [Fetch init, Upsert [stored]]))))))"

definition handleGet_vectorize ::
  "'s vectorize \<Rightarrow> string option \<Rightarrow> 's \<Rightarrow> 's outcome" where
  "handleGet_vectorize V ident s =
    (case ident of
       None \<Rightarrow> (errorResponse_vectorize ''Missing ID parameter'' 400, s, [])
     | Some i \<Rightarrow>
        if i = [] then (errorResponse_vectorize ''Missing ID parameter'' 400, s, [])
        else
        (case getByIds V [i] s of
           Inl e \<Rightarrow>
             (errorResponse_vectorize ''Failed to retrieve embedding'' 500,
              s, [GetByIds [i]])
         | Inr results \<Rightarrow>
            (case results of
               [] \<Rightarrow>
                 (errorResponse_vectorize ''Embedding not found'' 404,
                  s, [GetByIds [i]])
             | v # rest \<Rightarrow>
                (case get_prop (vec_metadata v) ''text'' of
                   Inl e \<Rightarrow>
                     (errorResponse_vectorize ''Failed to retrieve embedding'' 500,
                      s, [GetByIds [i]])
                 | Inr text \<Rightarrow>
                    (case get_prop (vec_metadata v) ''timestamp'' of
                       Inl e \<Rightarrow>
                         (errorResponse_vectorize ''Failed to retrieve embedding'' 500,
                          s, [GetByIds [i]])
                     | Inr timestamp \<Rightarrow>
                         (jsonResponse_vectorize
                                 (JObj [(''id'', JStr (vec_id v)),
                                        (''text'', text),
                                        (''embedding'', vec_values v),
                                        (''timestamp'', timestamp)]) 200,
                          s, [GetByIds [i]]))))))"

text \<open>One element of \<open>results\<close> in the search response.\<close>

definition search_result :: "vmatch \<Rightarrow> jsval" where
  "search_result m =
     JObj [(''id'', JStr (match_id m)),
           (''score'', JNum (match_score m)),
           (''text'', opt_prop (match_metadata m) ''text'')]"

definition handleSearch_vectorize ::
  "runtime \<Rightarrow> 's vectorize \<Rightarrow> request \<Rightarrow> 's \<Rightarrow> 's outcome" where
  "handleSearch_vectorize rt V request s =
    (case Authorization request of
       None \<Rightarrow> (errorResponse_vectorize ''Missing Authorization header'' 401, s, [])
     | Some auth \<Rightarrow>
        if \<not> startsWith auth ''Bearer ''
        then (errorResponse_vectorize ''Missing Authorization header'' 401, s, [])
        else let parsed = json_or_empty request in
        if is_nullish parsed then (Inl TypeError, s, [])
        else let query_text = property parsed ''query'';
                 topK = default_to (property parsed ''topK'') (JNum 5);
                 filter_by = property parsed ''filter'' in
        if \<not> truthy query_text \<or> \<not> is_string query_text
        then (errorResponse_vectorize ''Missing or invalid query field'' 400, s, [])
        else let init = embeddings_call auth query_text in
        (case fetch rt init of
           Inl e \<Rightarrow> (Inl e, s, [Fetch init])
         | Inr response \<Rightarrow>
            if \<not> ok response
            then
              (case up_text response of
                 Inl e \<Rightarrow> (Inl e, s, [Fetch init])
               | Inr errorText \<Rightarrow>
                   (errorResponse_vectorize (''OpenAI API failed: '' @ errorText)
                          (up_status response), s, [Fetch init]))
            else
            (case up_json response of
               Inl e \<Rightarrow>
                 (errorResponse_vectorize (''Search failed: '' @ message rt e) 500,
                  s, [Fetch init])
             | Inr openaiResponse \<Rightarrow>
                (case get_prop openaiResponse ''data'' of
                   Inl e \<Rightarrow>
                     (errorResponse_vectorize (''Search failed: '' @ message rt e) 500,
                      s, [Fetch init])
                 | Inr data \<Rightarrow>
                    if \<not> truthy data \<or> \<not> truthy (property data ''0'')
                       \<or> \<not> truthy (property (property data ''0'') ''embedding'')
                    then
                      (errorResponse_vectorize
                              (''Invalid response from OpenAI: ''
                                 @ stringify_chars rt openaiResponse) 500,
                       s, [Fetch init])
                    else let embedding = property (property data ''0'') ''embedding'' in
                    if \<not> truthy embedding \<or> \<not> isArray embedding
                       \<or> property embedding ''length'' = JNum 0
                    then
                      (errorResponse_vectorize
                              (''Invalid embedding data received: ''
                                 @ template_chars rt
                                     (let n = opt_prop embedding ''length''
                                      in if truthy n then n else JNum 0)
                                 @ '' dimensions'') 500,
                       s, [Fetch init])
                    else let searchOptions =
                           JObj ([(''topK'', topK), (''returnMetadata'', JBool True)]
                                 @ (if truthy filter_by then [(''filter'', filter_by)] else []))
                    in
                    (case query V embedding searchOptions s of
                       Inl e \<Rightarrow>
                         (errorResponse_vectorize
                                 (''Search failed: '' @ message rt e) 500,
                          s, [Fetch init, Query embedding searchOptions])
                     | Inr matches \<Rightarrow>
                         (jsonResponse_vectorize
                                 (JObj [(''query'', query_text),
                                        (''results'', JArr (map search_result matches))])
                                 200,
                          s, [Fetch init, Query embedding searchOptions]))))))"

definition handleDelete_vectorize ::
  "'s vectorize \<Rightarrow> string option \<Rightarrow> 's \<Rightarrow> 's outcome" where
  "handleDelete_vectorize V ident s =
    (case ident of
       None \<Rightarrow> (errorResponse_vectorize ''Missing ID parameter'' 400, s, [])
     | Some i \<Rightarrow>
        if i = [] then (errorResponse_vectorize ''Missing ID parameter'' 400, s, [])
        else
        (case deleteByIds V [i] s of
           Inl e \<Rightarrow>
             (errorResponse_vectorize ''Failed to delete embedding'' 500,
              s, [DeleteByIds [i]])
         | Inr s' \<Rightarrow>
             (jsonResponse_vectorize
                     (JObj [(''message'', JStr ''Embedding deleted successfully''),
                            (''id'', JStr i)]) 200,
              s', [DeleteByIds [i]])))"

section \<open>The worker backed by KV only\<close>

definition CORS_HEADERS_kv :: "(string \<times> string) list" where
  "CORS_HEADERS_kv =
     [(''Access-Control-Allow-Origin'', ''*''),
      (''Access-Control-Allow-Methods'', ''GET, POST, OPTIONS''),
      (''Access-Control-Allow-Headers'', ''Content-Type, Authorization'')]"

definition jsonResponse_kv :: "jsval \<Rightarrow> nat \<Rightarrow> exn + response" where
  "jsonResponse_kv data st =
     new_Response (JSON_stringify data) st
       ((''Content-Type'', ''application/json'') # CORS_HEADERS_kv)"

definition errorResponse_kv :: "string \<Rightarrow> nat \<Rightarrow> exn + response" where
  "errorResponse_kv msg st = jsonResponse_kv (JObj [(''error'', JStr msg)]) st"

definition handleEmbed_kv ::
  "runtime \<Rightarrow> 's kv_namespace \<Rightarrow> request \<Rightarrow> 's \<Rightarrow> 's outcome" where
  "handleEmbed_kv rt K request s =
    (case Authorization request of
       None \<Rightarrow> (errorResponse_kv ''Missing Authorization header'' 401, s, [])
     | Some auth \<Rightarrow>
        if \<not> startsWith auth ''Bearer ''
        then (errorResponse_kv ''Missing Authorization header'' 401, s, [])
        else let parsed = json_or_empty request in
        if is_nullish parsed then (Inl TypeError, s, [])
        else let text = property parsed ''text'' in
        if \<not> truthy text \<or> \<not> is_string text
        then (errorResponse_kv ''Missing or invalid text field'' 400, s, [])
        else let apiKey = slice 7 auth;
                 init = embeddings_call (''Bearer '' @ apiKey) text in
        (case fetch rt init of
           Inl e \<Rightarrow> (Inl e, s, [Fetch init])
         | Inr response \<Rightarrow>
            if \<not> ok response
            then (errorResponse_kv ''Failed to generate embedding'' 500, s, [Fetch init])
            else
            (case up_json response of
               Inl e \<Rightarrow> (Inl e, s, [Fetch init])
             | Inr reply \<Rightarrow>
                if is_nullish reply then (Inl TypeError, s, [Fetch init])
                else let data = property reply ''data'';
                         ident = substring 2 10 (random36 rt) in
                (case first_embedding data of
                   Inl e \<Rightarrow> (Inl e, s, [Fetch init])
                 | Inr embedding \<Rightarrow>
                    let stored = JSON_stringify
                          (JObj [(''text'', text),
                                 (''embedding'', embedding),
                                 (''timestamp'', JStr (now_iso rt))]) in
                    (case kv_put K ident stored s of
                       Inl e \<Rightarrow> (Inl e, s, [Fetch init, KvPut ident stored])
                     | Inr s' \<Rightarrow>
                         (jsonResponse_kv (JObj [(''id'', JStr ident)]) 200,
                          s', [Fetch init, KvPut ident stored]))))))"

definition handleGet_kv ::
  "'s kv_namespace \<Rightarrow> string option \<Rightarrow> 's \<Rightarrow> 's outcome" where
  "handleGet_kv K ident s =
    (case ident of
       None \<Rightarrow> (errorResponse_kv ''Missing ID parameter'' 400, s, [])
     | Some i \<Rightarrow>
        if i = [] then (errorResponse_kv ''Missing ID parameter'' 400, s, [])
        else
        (case kv_get K i s of
           Inl e \<Rightarrow> (Inl e, s, [KvGet i])
         | Inr data \<Rightarrow>
            (case data of
               None \<Rightarrow> (errorResponse_kv ''Embedding not found'' 404, s, [KvGet i])
             | Some stored \<Rightarrow>
                if empty_text stored
                then (errorResponse_kv ''Embedding not found'' 404, s, [KvGet i])
                else
                (case JSON_parse stored of
                   Inl e \<Rightarrow> (Inl e, s, [KvGet i])
                 | Inr parsed \<Rightarrow>
                    if is_nullish parsed then (Inl TypeError, s, [KvGet i])
                    else
                      (jsonResponse_kv
                         (JObj [(''id'', JStr i),
                                (''text'', property parsed ''text''),
                                (''embedding'', property parsed ''embedding''),
                                (''timestamp'', property parsed ''timestamp'')]) 200,
                       s, [KvGet i])))))"

section \<open>Reference stores\<close>

text \<open>
  An index and a namespace that keep what is written, as lists of entries with the
  latest write first.  They stand for a store that works; the handlers are defined for
  any binding.
\<close>

definition memory_vectorize :: "(vector list) vectorize" where
  "memory_vectorize =
     \<lparr>upsert = (\<lambda>vs s. Inr (vs @ s)),
      getByIds = (\<lambda>ids s.
         Inr (concat (map (\<lambda>i. case find (\<lambda>v. vec_id v = i) s of
                                   None \<Rightarrow> [] | Some v \<Rightarrow> [v]) ids))),
      query = (\<lambda>q opts s.
         Inr (map (\<lambda>v. \<lparr>match_id = vec_id v, match_score = 1,
                          match_metadata = vec_metadata v\<rparr>) s)),
      deleteByIds = (\<lambda>ids s. Inr (filter (\<lambda>v. vec_id v \<notin> set ids) s))\<rparr>"

definition memory_kv :: "((string \<times> jtext) list) kv_namespace" where
  "memory_kv =
     \<lparr>kv_get = (\<lambda>k s. Inr (map_of s k)),
      kv_put = (\<lambda>k v s. Inr ((k, v) # s))\<rparr>"

text \<open>A store whose every call throws.\<close>

definition broken_vectorize :: "unit vectorize" where
  "broken_vectorize =
     \<lparr>upsert = (\<lambda>vs s. Inl (Error ''unavailable'')),
      getByIds = (\<lambda>ids s. Inl (Error ''unavailable'')),
      query = (\<lambda>q opts s. Inl (Error ''unavailable'')),
      deleteByIds = (\<lambda>ids s. Inl (Error ''unavailable''))\<rparr>"

definition broken_kv :: "unit kv_namespace" where
  "broken_kv =
     \<lparr>kv_get = (\<lambda>k s. Inl (Error ''unavailable'')),
      kv_put = (\<lambda>k v s. Inl (Error ''unavailable''))\<rparr>"

text \<open>A runtime whose provider answers every call with the given reply.\<close>

definition runtime_with :: "upstream \<Rightarrow> runtime" where
  "runtime_with reply =
     \<lparr>fetch = (\<lambda>init. Inr reply),
      random36 = ''0.4fzyo82mvyr'',
      now_iso = ''2024-01-01T12:00:00.000Z'',
      stringify_chars = (\<lambda>v. []),
      template_chars = (\<lambda>v. []),
      engine_message = (\<lambda>e. [])\<rparr>"

definition embedding_reply :: "nat \<Rightarrow> jsval \<Rightarrow> upstream" where
  "embedding_reply st j = \<lparr>up_status = st, up_text = Inr [], up_json = Inr j\<rparr>"

section \<open>Sample inputs\<close>

definition request_basic_token :: request where
  "request_basic_token =
     \<lparr>Authorization = Some ''Basic token'', json = Inr (JObj [(''text'', JStr ''test'')])\<rparr>"

definition request_malformed_json :: request where
  "request_malformed_json =
     \<lparr>Authorization = Some ''Bearer test-api-key'', json = Inl SyntaxError\<rparr>"

definition request_numeric_text :: request where
  "request_numeric_text =
     \<lparr>Authorization = Some ''Bearer test-api-key'',
      json = Inr (JObj [(''text'', JNum 123)])\<rparr>"

definition request_null_body :: request where
  "request_null_body = \<lparr>Authorization = Some ''Bearer test-api-key'', json = Inr JNull\<rparr>"

definition hello_metadata :: "(string \<times> jsval) list" where
  "hello_metadata =
     [(''text'', JStr ''other''), (''timestamp'', JStr ''2024-01-15''), (''tag'', JStr ''x'')]"

definition hello_body :: jsval where
  "hello_body = JObj [(''text'', JStr ''hello''), (''metadata'', JObj hello_metadata)]"

definition request_hello :: request where
  "request_hello = \<lparr>Authorization = Some ''Bearer test-api-key'', json = Inr hello_body\<rparr>"

definition tagged_body :: jsval where
  "tagged_body =
     JObj [(''text'', JStr ''hello''), (''metadata'', JObj [(''tag'', JStr ''x'')])]"

definition request_tagged :: request where
  "request_tagged = \<lparr>Authorization = Some ''Bearer test-api-key'', json = Inr tagged_body\<rparr>"

definition plain_body :: jsval where
  "plain_body = JObj [(''text'', JStr ''hello'')]"

definition request_plain :: request where
  "request_plain = \<lparr>Authorization = Some ''Bearer test-api-key'', json = Inr plain_body\<rparr>"

definition good_embedding :: jsval where
  "good_embedding = JArr [JNum (1 / 10), JNum (- (1 / 5))]"

definition good_reply :: jsval where
  "good_reply = JObj [(''data'', JArr [JObj [(''embedding'', good_embedding)]])]"

definition good_runtime :: runtime where
  "good_runtime = runtime_with (embedding_reply 200 good_reply)"

text \<open>A reply whose first two numbers were written as \<open>1e400\<close> and \<open>-0\<close>.\<close>

definition overflow_embedding :: jsval where
  "overflow_embedding = JArr [JSpecial PosInfinity, JSpecial NegZero, JNum (1 / 10)]"

definition overflow_reply :: jsval where
  "overflow_reply = JObj [(''data'', JArr [JObj [(''embedding'', overflow_embedding)]])]"

definition overflow_runtime :: runtime where
  "overflow_runtime = runtime_with (embedding_reply 200 overflow_reply)"

definition rate_limited_runtime :: runtime where
  "rate_limited_runtime = runtime_with (embedding_reply 429 JNull)"

text \<open>What the two workers store for the sample requests.\<close>

definition stored_plain :: vector where
  "stored_plain =
     \<lparr>vec_id = ''4fzyo82mvyr'', vec_values = good_embedding,
      vec_metadata = JObj [(''text'', JStr ''hello''),
                           (''timestamp'', JStr ''2024-01-01T12:00:00.000Z'')]\<rparr>"

definition stored_hello :: vector where
  "stored_hello =
     \<lparr>vec_id = ''4fzyo82mvyr'', vec_values = good_embedding,
      vec_metadata = JObj [(''text'', JStr ''other''),
                           (''timestamp'', JStr ''2024-01-15''),
                           (''tag'', JStr ''x'')]\<rparr>"

definition stored_tagged :: vector where
  "stored_tagged =
     \<lparr>vec_id = ''4fzyo82mvyr'', vec_values = good_embedding,
      vec_metadata = JObj [(''text'', JStr ''hello''),
                           (''timestamp'', JStr ''2024-01-01T12:00:00.000Z''),
                           (''tag'', JStr ''x'')]\<rparr>"

definition stored_overflow :: vector where
  "stored_overflow =
     \<lparr>vec_id = ''4fzyo82mvyr'', vec_values = overflow_embedding,
      vec_metadata = JObj [(''text'', JStr ''hello''),
                           (''timestamp'', JStr ''2024-01-01T12:00:00.000Z'')]\<rparr>"

definition kv_plain :: jtext where
  "kv_plain =
     JsonText (JObj [(''text'', JStr ''hello''), (''embedding'', good_embedding),
                     (''timestamp'', JStr ''2024-01-01T12:00:00.000Z'')])"

definition kv_overflow :: jtext where
  "kv_overflow =
     JsonText (JObj [(''text'', JStr ''hello''),
                     (''embedding'', JArr [JNull, JNum 0, JNum (1 / 10)]),
                     (''timestamp'', JStr ''2024-01-01T12:00:00.000Z'')])"

definition search_body :: jsval where
  "search_body = JObj [(''query'', JStr ''greeting''), (''filter'', JObj [(''tag'', JStr ''x'')])]"

definition request_search :: request where
  "request_search = \<lparr>Authorization = Some ''Bearer test-api-key'', json = Inr search_body\<rparr>"

definition stored_bare :: vector where
  "stored_bare = \<lparr>vec_id = ''abc'', vec_values = JArr [], vec_metadata = JUndefined\<rparr>"

definition odd_status_runtime :: runtime where
  "odd_status_runtime = runtime_with (embedding_reply 999 JNull)"

section \<open>Facts about responses\<close>

lemma new_Response_accepts:
  "200 \<le> st \<Longrightarrow> st \<le> 599 \<Longrightarrow> \<not> null_body_status st \<Longrightarrow>
     new_Response b st hs = Inr \<lparr>status = st, headers = hs, body = b\<rparr>"
  by (simp add: new_Response_def)

lemma jsonResponse_vectorize_accepts:
  "200 \<le> st \<Longrightarrow> st \<le> 599 \<Longrightarrow> \<not> null_body_status st \<Longrightarrow>
     jsonResponse_vectorize d st =
       Inr \<lparr>status = st,
            headers = (''Content-Type'', ''application/json'') # CORS_HEADERS_vectorize,
            body = JSON_stringify d\<rparr>"
  by (simp add: jsonResponse_vectorize_def new_Response_accepts)

lemma jsonResponse_kv_accepts:
  "200 \<le> st \<Longrightarrow> st \<le> 599 \<Longrightarrow> \<not> null_body_status st \<Longrightarrow>
     jsonResponse_kv d st =
       Inr \<lparr>status = st,
            headers = (''Content-Type'', ''application/json'') # CORS_HEADERS_kv,
            body = JSON_stringify d\<rparr>"
  by (simp add: jsonResponse_kv_def new_Response_accepts)

lemma errorResponse_vectorize_accepts:
  "200 \<le> st \<Longrightarrow> st \<le> 599 \<Longrightarrow> \<not> null_body_status st \<Longrightarrow>
     errorResponse_vectorize m st =
       Inr \<lparr>status = st,
            headers = (''Content-Type'', ''application/json'') # CORS_HEADERS_vectorize,
            body = JsonText (JObj [(''error'', JStr m)])\<rparr>"
  by (simp add: errorResponse_vectorize_def jsonResponse_vectorize_accepts JSON_stringify_def)

lemma errorResponse_kv_accepts:
  "200 \<le> st \<Longrightarrow> st \<le> 599 \<Longrightarrow> \<not> null_body_status st \<Longrightarrow>
     errorResponse_kv m st =
       Inr \<lparr>status = st,
            headers = (''Content-Type'', ''application/json'') # CORS_HEADERS_kv,
            body = JsonText (JObj [(''error'', JStr m)])\<rparr>"
  by (simp add: errorResponse_kv_def jsonResponse_kv_accepts JSON_stringify_def)

lemma literal_status:
  "\<not> null_body_status 200" "\<not> null_body_status 400" "\<not> null_body_status 401"
  "\<not> null_body_status 404" "\<not> null_body_status 500" "\<not> null_body_status 429"
  by (simp_all add: null_body_status_def)

lemmas jsonResponse_vectorize_200 =
  jsonResponse_vectorize_accepts [of 200, simplified literal_status, simplified]

lemmas jsonResponse_kv_200 =
  jsonResponse_kv_accepts [of 200, simplified literal_status, simplified]

lemmas errorResponse_vectorize_fields =
  errorResponse_vectorize_accepts [of 400, simplified literal_status, simplified]
  errorResponse_vectorize_accepts [of 401, simplified literal_status, simplified]
  errorResponse_vectorize_accepts [of 404, simplified literal_status, simplified]
  errorResponse_vectorize_accepts [of 500, simplified literal_status, simplified]

lemmas errorResponse_kv_fields =
  errorResponse_kv_accepts [of 400, simplified literal_status, simplified]
  errorResponse_kv_accepts [of 401, simplified literal_status, simplified]
  errorResponse_kv_accepts [of 404, simplified literal_status, simplified]
  errorResponse_kv_accepts [of 500, simplified literal_status, simplified]

lemma id_response_vectorize:
  "jsonResponse_vectorize (JObj [(''id'', JStr i)]) 200 =
     Inr \<lparr>status = 200,
          headers = (''Content-Type'', ''application/json'') # CORS_HEADERS_vectorize,
          body = JsonText (JObj [(''id'', JStr i)])\<rparr>"
  by (simp add: jsonResponse_vectorize_200 JSON_stringify_def)

lemma id_response_kv:
  "jsonResponse_kv (JObj [(''id'', JStr i)]) 200 =
     Inr \<lparr>status = 200,
          headers = (''Content-Type'', ''application/json'') # CORS_HEADERS_kv,
          body = JsonText (JObj [(''id'', JStr i)])\<rparr>"
  by (simp add: jsonResponse_kv_200 JSON_stringify_def)

section \<open>Authorization\<close>

text \<open>
  Claim C6.  When \<open>request.headers.get('Authorization')\<close> is absent or does not start
  with \<open>Bearer \<close>, the create handler of either worker and the search handler answer 401
  with the body \<open>{"error": "Missing Authorization header"}\<close>; no outbound call has been
  made and the store is as it was.
\<close>

theorem missing_authorization_is_401:
  assumes "Authorization request = None
           \<or> (\<exists>a. Authorization request = Some a \<and> \<not> startsWith a ''Bearer '')"
  shows "(\<exists>r. handleEmbed_vectorize rt V request s = (Inr r, s, [])
              \<and> status r = 401
              \<and> body r = JsonText (JObj [(''error'', JStr ''Missing Authorization header'')]))
       \<and> (\<exists>r. handleSearch_vectorize rt V request s = (Inr r, s, [])
              \<and> status r = 401
              \<and> body r = JsonText (JObj [(''error'', JStr ''Missing Authorization header'')]))
       \<and> (\<exists>r. handleEmbed_kv rt K request t = (Inr r, t, [])
              \<and> status r = 401
              \<and> body r = JsonText (JObj [(''error'', JStr ''Missing Authorization header'')]))"
  using assms
  by (auto simp: handleEmbed_vectorize_def handleSearch_vectorize_def handleEmbed_kv_def
      errorResponse_vectorize_fields errorResponse_kv_fields)

theorem missing_authorization_is_401_witness:
  "(Authorization request_basic_token = None
     \<or> (\<exists>a. Authorization request_basic_token = Some a \<and> \<not> startsWith a ''Bearer ''))
   \<and> (\<exists>r. handleEmbed_vectorize (runtime_with (embedding_reply 200 JNull)) memory_vectorize
              request_basic_token [] = (Inr r, [], [])
          \<and> status r = 401
          \<and> body r = JsonText (JObj [(''error'', JStr ''Missing Authorization header'')]))
   \<and> (\<exists>r. handleSearch_vectorize (runtime_with (embedding_reply 200 JNull)) memory_vectorize
              request_basic_token [] = (Inr r, [], [])
          \<and> status r = 401
          \<and> body r = JsonText (JObj [(''error'', JStr ''Missing Authorization header'')]))
   \<and> (\<exists>r. handleEmbed_kv (runtime_with (embedding_reply 200 JNull)) memory_kv
              request_basic_token [] = (Inr r, [], [])
          \<and> status r = 401
          \<and> body r = JsonText (JObj [(''error'', JStr ''Missing Authorization header'')]))"
proof -
  have h: "Authorization request_basic_token = None
     \<or> (\<exists>a. Authorization request_basic_token = Some a \<and> \<not> startsWith a ''Bearer '')"
    by (simp add: request_basic_token_def startsWith_def)
  show ?thesis
    using h missing_authorization_is_401 [OF h,
        of "runtime_with (embedding_reply 200 JNull)" memory_vectorize "[]" memory_kv "[]"]
    by blast
qed

section \<open>Facts about values\<close>

lemma nonempty_string_iff:
  "(truthy v \<and> is_string v) = (\<exists>t. v = JStr t \<and> t \<noteq> [])"
  by (cases v) auto

lemma bearer_rebuilt: "startsWith a ''Bearer '' \<Longrightarrow> ''Bearer '' @ slice 7 a = a"
proof -
  assume "startsWith a ''Bearer ''"
  moreover have "length ''Bearer '' = 7" by simp
  ultimately have "take 7 a = ''Bearer ''" by (simp only: startsWith_def)
  then show ?thesis
    using append_take_drop_id [of 7 a] by (simp add: slice_def)
qed

lemma property_obj:
  "property (JObj kvs) k = (case map_of kvs k of Some v \<Rightarrow> v | None \<Rightarrow> JUndefined)"
  by (simp add: property_def split: option.splits)

lemma property_nullish: "is_nullish v \<Longrightarrow> property v k = JUndefined"
  by (cases v) (simp_all add: property_def)

section \<open>Validation of the body\<close>

text \<open>
  Claim C7 against the code.  Take a create or search request that carries a \<open>Bearer\<close>
  header.  When its body fails to parse, or parses to a value other than \<open>null\<close>, and
  its \<open>text\<close> field is absent, not a string or empty, both create handlers answer 400
  \<open>Missing or invalid text field\<close>; when its \<open>query\<close> field is so, the search handler
  answers 400 \<open>Missing or invalid query field\<close>; nothing has been called, and a body that
  fails to parse is handled exactly as the empty object.  When the body is the JSON text
  \<open>null\<close>, which has no field either, destructuring the parsed body throws before the
  field is tested: each of the three handlers ends with a \<open>TypeError\<close> and returns no
  response.
\<close>

theorem invalid_field_is_400:
  assumes "Authorization request = Some a" and "startsWith a ''Bearer ''"
  shows "((\<exists>e. json request = Inl e) \<or> (\<exists>v. json request = Inr v \<and> \<not> is_nullish v) \<longrightarrow>
           ((\<forall>t. property (json_or_empty request) ''text'' = JStr t \<longrightarrow> t = []) \<longrightarrow>
              (\<exists>r. handleEmbed_vectorize rt V request s = (Inr r, s, [])
                 \<and> status r = 400
                 \<and> body r = JsonText (JObj [(''error'', JStr ''Missing or invalid text field'')]))
            \<and> (\<exists>r. handleEmbed_kv rt K request t = (Inr r, t, [])
                 \<and> status r = 400
                 \<and> body r = JsonText (JObj [(''error'', JStr ''Missing or invalid text field'')])))
         \<and> ((\<forall>t. property (json_or_empty request) ''query'' = JStr t \<longrightarrow> t = []) \<longrightarrow>
              (\<exists>r. handleSearch_vectorize rt V request s = (Inr r, s, [])
                 \<and> status r = 400
                 \<and> body r = JsonText (JObj [(''error'', JStr ''Missing or invalid query field'')])))
         \<and> ((\<exists>e. json request = Inl e) \<longrightarrow>
              property (json_or_empty request) ''text'' = JUndefined
            \<and> property (json_or_empty request) ''query'' = JUndefined
            \<and> handleEmbed_vectorize rt V request s =
                handleEmbed_vectorize rt V (request\<lparr>json := Inr (JObj [])\<rparr>) s
            \<and> handleEmbed_kv rt K request t =
                handleEmbed_kv rt K (request\<lparr>json := Inr (JObj [])\<rparr>) t
            \<and> handleSearch_vectorize rt V request s =
                handleSearch_vectorize rt V (request\<lparr>json := Inr (JObj [])\<rparr>) s))
       \<and> (json request = Inr JNull \<longrightarrow>
            handleEmbed_vectorize rt V request s = (Inl TypeError, s, [])
          \<and> handleEmbed_kv rt K request t = (Inl TypeError, t, [])
          \<and> handleSearch_vectorize rt V request s = (Inl TypeError, s, []))"
proof (intro conjI impI)
  assume "json request = Inr JNull"
  then have n: "json_or_empty request = JNull"
    by (simp add: json_or_empty_def)
  show "handleEmbed_vectorize rt V request s = (Inl TypeError, s, [])"
    using assms n by (simp add: handleEmbed_vectorize_def)
  show "handleEmbed_kv rt K request t = (Inl TypeError, t, [])"
    using assms n by (simp add: handleEmbed_kv_def)
  show "handleSearch_vectorize rt V request s = (Inl TypeError, s, [])"
    using assms n by (simp add: handleSearch_vectorize_def)
next
  assume parsed: "(\<exists>e. json request = Inl e) \<or> (\<exists>v. json request = Inr v \<and> \<not> is_nullish v)"
  then have nn: "\<not> is_nullish (json_or_empty request)"
    by (auto simp: json_or_empty_def)
  have bad: "(\<forall>t. x = JStr t \<longrightarrow> t = []) \<Longrightarrow> \<not> truthy x \<or> \<not> is_string x" for x
    using nonempty_string_iff [of x] by blast
  {
    assume f: "\<forall>t. property (json_or_empty request) ''text'' = JStr t \<longrightarrow> t = []"
    show "\<exists>r. handleEmbed_vectorize rt V request s = (Inr r, s, [])
               \<and> status r = 400
               \<and> body r = JsonText (JObj [(''error'', JStr ''Missing or invalid text field'')])"
      using assms(1,2) nn bad [OF f]
      by (auto simp: handleEmbed_vectorize_def Let_def errorResponse_vectorize_fields)
    show "\<exists>r. handleEmbed_kv rt K request t = (Inr r, t, [])
               \<and> status r = 400
               \<and> body r = JsonText (JObj [(''error'', JStr ''Missing or invalid text field'')])"
      using assms(1,2) nn bad [OF f]
      by (auto simp: handleEmbed_kv_def Let_def errorResponse_kv_fields)
  }
  {
    assume f: "\<forall>t. property (json_or_empty request) ''query'' = JStr t \<longrightarrow> t = []"
    show "\<exists>r. handleSearch_vectorize rt V request s = (Inr r, s, [])
               \<and> status r = 400
               \<and> body r = JsonText (JObj [(''error'', JStr ''Missing or invalid query field'')])"
      using assms(1,2) nn bad [OF f]
      by (auto simp: handleSearch_vectorize_def Let_def errorResponse_vectorize_fields)
  }
  {
    assume "\<exists>e. json request = Inl e"
    then have p: "json_or_empty request = JObj []"
      by (auto simp: json_or_empty_def)
    have p': "json_or_empty (request\<lparr>json := Inr (JObj [])\<rparr>) = JObj []"
      by (simp add: json_or_empty_def)
    show "property (json_or_empty request) ''text'' = JUndefined"
      and "property (json_or_empty request) ''query'' = JUndefined"
      by (simp_all add: p property_obj)
    show "handleEmbed_vectorize rt V request s =
            handleEmbed_vectorize rt V (request\<lparr>json := Inr (JObj [])\<rparr>) s"
      using p p' by (simp add: handleEmbed_vectorize_def cong: option.case_cong if_cong)
    show "handleEmbed_kv rt K request t =
            handleEmbed_kv rt K (request\<lparr>json := Inr (JObj [])\<rparr>) t"
      using p p' by (simp add: handleEmbed_kv_def cong: option.case_cong if_cong)
    show "handleSearch_vectorize rt V request s =
            handleSearch_vectorize rt V (request\<lparr>json := Inr (JObj [])\<rparr>) s"
      using p p' by (simp add: handleSearch_vectorize_def cong: option.case_cong if_cong)
  }
qed

theorem invalid_field_is_400_witness:
  "Authorization request_malformed_json = Some ''Bearer test-api-key''
   \<and> startsWith ''Bearer test-api-key'' ''Bearer ''
   \<and> json request_malformed_json = Inl SyntaxError
   \<and> property (json_or_empty request_malformed_json) ''text'' = JUndefined
   \<and> property (json_or_empty request_malformed_json) ''query'' = JUndefined
   \<and> (\<exists>r. handleEmbed_vectorize good_runtime memory_vectorize request_malformed_json [] =
            (Inr r, [], [])
          \<and> status r = 400
          \<and> body r = JsonText (JObj [(''error'', JStr ''Missing or invalid text field'')]))
   \<and> (\<exists>r. handleEmbed_kv good_runtime memory_kv request_malformed_json [] = (Inr r, [], [])
          \<and> status r = 400
          \<and> body r = JsonText (JObj [(''error'', JStr ''Missing or invalid text field'')]))
   \<and> (\<exists>r. handleSearch_vectorize good_runtime memory_vectorize request_malformed_json [] =
            (Inr r, [], [])
          \<and> status r = 400
          \<and> body r = JsonText (JObj [(''error'', JStr ''Missing or invalid query field'')]))
   \<and> handleEmbed_vectorize good_runtime memory_vectorize request_malformed_json [] =
       handleEmbed_vectorize good_runtime memory_vectorize
         (request_malformed_json\<lparr>json := Inr (JObj [])\<rparr>) []
   \<and> json request_numeric_text = Inr (JObj [(''text'', JNum 123)])
   \<and> (\<exists>r. handleEmbed_vectorize good_runtime memory_vectorize request_numeric_text [] =
            (Inr r, [], [])
          \<and> status r = 400
          \<and> body r = JsonText (JObj [(''error'', JStr ''Missing or invalid text field'')]))
   \<and> (\<exists>r. handleEmbed_kv good_runtime memory_kv request_numeric_text [] = (Inr r, [], [])
          \<and> status r = 400
          \<and> body r = JsonText (JObj [(''error'', JStr ''Missing or invalid text field'')]))
   \<and> (\<exists>r. handleSearch_vectorize good_runtime memory_vectorize request_numeric_text [] =
            (Inr r, [], [])
          \<and> status r = 400
          \<and> body r = JsonText (JObj [(''error'', JStr ''Missing or invalid query field'')]))
   \<and> Authorization request_null_body = Some ''Bearer test-api-key''
   \<and> json request_null_body = Inr JNull
   \<and> handleEmbed_vectorize good_runtime memory_vectorize request_null_body [] =
       (Inl TypeError, [], [])
   \<and> handleEmbed_kv good_runtime memory_kv request_null_body [] = (Inl TypeError, [], [])
   \<and> handleSearch_vectorize good_runtime memory_vectorize request_null_body [] =
       (Inl TypeError, [], [])"
proof -
  have h1: "Authorization request_malformed_json = Some ''Bearer test-api-key''"
    by (simp add: request_malformed_json_def)
  have h2: "startsWith ''Bearer test-api-key'' ''Bearer ''"
    by (simp add: startsWith_def)
  have h3: "json request_malformed_json = Inl SyntaxError"
    by (simp add: request_malformed_json_def)
  have h4: "(\<exists>e. json request_malformed_json = Inl e)
            \<or> (\<exists>v. json request_malformed_json = Inr v \<and> \<not> is_nullish v)"
    using h3 by simp
  have u: "property (json_or_empty request_malformed_json) k = JUndefined" for k
    using h3 by (simp add: json_or_empty_def property_obj)
  have e: "\<exists>e. json request_malformed_json = Inl e"
    using h3 by simp
  have b: "\<forall>t. property (json_or_empty request_malformed_json) k = JStr t \<longrightarrow> t = []" for k
    using u [of k] by simp
  have n1: "Authorization request_null_body = Some ''Bearer test-api-key''"
    by (simp add: request_null_body_def)
  have n3: "json request_null_body = Inr JNull"
    by (simp add: request_null_body_def)
  have p1: "Authorization request_numeric_text = Some ''Bearer test-api-key''"
    by (simp add: request_numeric_text_def)
  have p3: "json request_numeric_text = Inr (JObj [(''text'', JNum 123)])"
    by (simp add: request_numeric_text_def)
  have p4: "(\<exists>e. json request_numeric_text = Inl e)
            \<or> (\<exists>v. json request_numeric_text = Inr v \<and> \<not> is_nullish v)"
    using p3 by simp
  have pb: "\<forall>t. property (json_or_empty request_numeric_text) k = JStr t \<longrightarrow> t = []" for k
    using p3 by (simp add: json_or_empty_def property_obj)
  note m = invalid_field_is_400 [OF h1 h2,
      of good_runtime memory_vectorize "[]" memory_kv "[]"]
  note w = invalid_field_is_400 [OF p1 h2,
      of good_runtime memory_vectorize "[]" memory_kv "[]", THEN conjunct1, rule_format, OF p4]
  from w pb have numeric:
    "(\<exists>r. handleEmbed_vectorize good_runtime memory_vectorize request_numeric_text [] =
            (Inr r, [], [])
          \<and> status r = 400
          \<and> body r = JsonText (JObj [(''error'', JStr ''Missing or invalid text field'')]))
     \<and> (\<exists>r. handleEmbed_kv good_runtime memory_kv request_numeric_text [] = (Inr r, [], [])
          \<and> status r = 400
          \<and> body r = JsonText (JObj [(''error'', JStr ''Missing or invalid text field'')]))
     \<and> (\<exists>r. handleSearch_vectorize good_runtime memory_vectorize request_numeric_text [] =
            (Inr r, [], [])
          \<and> status r = 400
          \<and> body r = JsonText (JObj [(''error'', JStr ''Missing or invalid query field'')]))"
    by blast
  note n = invalid_field_is_400 [OF n1 h2,
      of good_runtime memory_vectorize "[]" memory_kv "[]"]
  from n n3 have thrown:
    "handleEmbed_vectorize good_runtime memory_vectorize request_null_body [] =
       (Inl TypeError, [], [])
     \<and> handleEmbed_kv good_runtime memory_kv request_null_body [] = (Inl TypeError, [], [])
     \<and> handleSearch_vectorize good_runtime memory_vectorize request_null_body [] =
       (Inl TypeError, [], [])"
    by blast
  show ?thesis
    using h1 h2 h3 u e b m [THEN conjunct1, rule_format, OF h4] p3 numeric n1 n3 thrown
    by blast
qed

section \<open>Failure of the embedding provider\<close>

text \<open>
  Claim C3, as the code has it.  Take a valid create request to which the provider
  answers with a status outside 200..299.  The worker backed by Vectorize passes that
  status to the response constructor: when the constructor accepts it (a status within
  200..599 that admits a body) the answer is \<open>Failed to generate embedding\<close> with the
  provider's status.  The worker backed by KV answers the same message with status 500
  whatever the provider's status was.  Nothing is stored.
\<close>

theorem provider_failure_status:
  assumes "Authorization request = Some a" and "startsWith a ''Bearer ''"
    and "json request = Inr b" and "property b ''text'' = JStr T" and "T \<noteq> []"
    and "fetch rt (embeddings_call a (JStr T)) = Inr response"
    and "\<not> ok response"
  shows "(200 \<le> up_status response \<and> up_status response \<le> 599
            \<and> \<not> null_body_status (up_status response) \<longrightarrow>
            (\<exists>r. handleEmbed_vectorize rt V request s =
                    (Inr r, s, [Fetch (embeddings_call a (JStr T))])
               \<and> status r = up_status response
               \<and> body r = JsonText (JObj [(''error'', JStr ''Failed to generate embedding'')])))
       \<and> (\<exists>r. handleEmbed_kv rt K request t =
                    (Inr r, t, [Fetch (embeddings_call a (JStr T))])
               \<and> status r = 500
               \<and> body r = JsonText (JObj [(''error'', JStr ''Failed to generate embedding'')]))"
proof -
  have nn: "\<not> is_nullish b"
    using assms(4) property_nullish [of b "''text''"] by auto
  have j: "json_or_empty request = b"
    using assms(3) by (simp add: json_or_empty_def)
  have v: "handleEmbed_vectorize rt V request s =
             (errorResponse_vectorize ''Failed to generate embedding'' (up_status response),
              s, [Fetch (embeddings_call a (JStr T))])"
    using assms nn j by (simp add: handleEmbed_vectorize_def Let_def)
  have k: "handleEmbed_kv rt K request t =
             (errorResponse_kv ''Failed to generate embedding'' 500,
              t, [Fetch (embeddings_call a (JStr T))])"
    using assms nn j bearer_rebuilt [OF assms(2)]
    by (simp add: handleEmbed_kv_def Let_def)
  show ?thesis
    unfolding v k
    by (simp add: errorResponse_vectorize_accepts errorResponse_kv_fields)
qed

theorem provider_failure_status_witness:
  "Authorization request_plain = Some ''Bearer test-api-key''
   \<and> startsWith ''Bearer test-api-key'' ''Bearer ''
   \<and> json request_plain = Inr plain_body
   \<and> property plain_body ''text'' = JStr ''hello''
   \<and> fetch rate_limited_runtime (embeddings_call ''Bearer test-api-key'' (JStr ''hello''))
       = Inr (embedding_reply 429 JNull)
   \<and> \<not> ok (embedding_reply 429 JNull)
   \<and> up_status (embedding_reply 429 JNull) = 429
   \<and> (\<exists>r. handleEmbed_vectorize rate_limited_runtime memory_vectorize request_plain [] =
            (Inr r, [], [Fetch (embeddings_call ''Bearer test-api-key'' (JStr ''hello''))])
          \<and> status r = 429
          \<and> body r = JsonText (JObj [(''error'', JStr ''Failed to generate embedding'')]))
   \<and> (\<exists>r. handleEmbed_kv rate_limited_runtime memory_kv request_plain [] =
            (Inr r, [], [Fetch (embeddings_call ''Bearer test-api-key'' (JStr ''hello''))])
          \<and> status r = 500
          \<and> body r = JsonText (JObj [(''error'', JStr ''Failed to generate embedding'')]))"
proof -
  have h1: "Authorization request_plain = Some ''Bearer test-api-key''"
    by (simp add: request_plain_def)
  have h2: "startsWith ''Bearer test-api-key'' ''Bearer ''"
    by (simp add: startsWith_def)
  have h3: "json request_plain = Inr plain_body"
    by (simp add: request_plain_def)
  have h4: "property plain_body ''text'' = JStr ''hello''"
    by (simp add: plain_body_def property_obj)
  have h5: "''hello'' \<noteq> []" by simp
  have h6: "fetch rate_limited_runtime (embeddings_call ''Bearer test-api-key'' (JStr ''hello''))
              = Inr (embedding_reply 429 JNull)"
    by (simp add: rate_limited_runtime_def runtime_with_def)
  have h7: "\<not> ok (embedding_reply 429 JNull)"
    by (simp add: ok_def embedding_reply_def)
  have u: "up_status (embedding_reply 429 JNull) = 429"
    by (simp add: embedding_reply_def)
  have a: "200 \<le> up_status (embedding_reply 429 JNull)
           \<and> up_status (embedding_reply 429 JNull) \<le> 599
           \<and> \<not> null_body_status (up_status (embedding_reply 429 JNull))"
    by (simp add: u null_body_status_def)
  note t = provider_failure_status [OF h1 h2 h3 h4 h5 h6 h7,
      of memory_vectorize "[]" memory_kv "[]", unfolded u]
  from t a [unfolded u] h1 h2 h3 h4 h6 h7 u show ?thesis
    by blast
qed

text \<open>
  The claim as stated fails for the worker backed by KV: the provider answers 429 and
  the worker answers 500.  In the worker backed by Vectorize a provider status that the
  response constructor refuses, such as 999, leaves the handler as a \<open>RangeError\<close>.
\<close>

theorem provider_failure_status_counterexample:
  "up_status (embedding_reply 429 JNull) = 429
   \<and> fetch rate_limited_runtime (embeddings_call ''Bearer test-api-key'' (JStr ''hello''))
       = Inr (embedding_reply 429 JNull)
   \<and> handleEmbed_kv rate_limited_runtime memory_kv request_plain [] =
       (Inr \<lparr>status = 500,
             headers = (''Content-Type'', ''application/json'') # CORS_HEADERS_kv,
             body = JsonText (JObj [(''error'', JStr ''Failed to generate embedding'')])\<rparr>,
        [], [Fetch (embeddings_call ''Bearer test-api-key'' (JStr ''hello''))])
   \<and> fetch odd_status_runtime (embeddings_call ''Bearer test-api-key'' (JStr ''hello''))
       = Inr (embedding_reply 999 JNull)
   \<and> handleEmbed_vectorize odd_status_runtime memory_vectorize request_plain [] =
       (Inl RangeError, [], [Fetch (embeddings_call ''Bearer test-api-key'' (JStr ''hello''))])"
  by (simp add: rate_limited_runtime_def odd_status_runtime_def runtime_with_def
      embedding_reply_def request_plain_def plain_body_def handleEmbed_kv_def
      handleEmbed_vectorize_def json_or_empty_def property_obj startsWith_def slice_def ok_def
      errorResponse_kv_fields errorResponse_vectorize_def jsonResponse_vectorize_def
      new_Response_def)

section \<open>Deleting\<close>

text \<open>
  Claim C9.  A delete request with a non-empty id calls \<open>deleteByIds\<close> with that id and
  nothing else.  If the call returns, the answer is 200 with the body \<open>{message, id}\<close>,
  whatever the index held; if the call throws, the answer is 500
  \<open>Failed to delete embedding\<close>.
\<close>

theorem delete_is_idempotent:
  assumes "i \<noteq> []"
  shows "(\<forall>s'. deleteByIds V [i] s = Inr s' \<longrightarrow>
            (\<exists>r. handleDelete_vectorize V (Some i) s = (Inr r, s', [DeleteByIds [i]])
               \<and> status r = 200
               \<and> body r = JsonText (JObj [(''message'', JStr ''Embedding deleted successfully''),
                                          (''id'', JStr i)])))
       \<and> (\<forall>e. deleteByIds V [i] s = Inl e \<longrightarrow>
            (\<exists>r. handleDelete_vectorize V (Some i) s = (Inr r, s, [DeleteByIds [i]])
               \<and> status r = 500
               \<and> body r = JsonText (JObj [(''error'', JStr ''Failed to delete embedding'')])))"
  using assms
  by (simp add: handleDelete_vectorize_def errorResponse_vectorize_fields
      jsonResponse_vectorize_200 JSON_stringify_def)

theorem delete_is_idempotent_witness:
  "''nonexistent'' \<noteq> []
   \<and> deleteByIds memory_vectorize [''nonexistent''] [] = Inr []
   \<and> (\<exists>r. handleDelete_vectorize memory_vectorize (Some ''nonexistent'') [] =
            (Inr r, [], [DeleteByIds [''nonexistent'']])
          \<and> status r = 200
          \<and> body r = JsonText (JObj [(''message'', JStr ''Embedding deleted successfully''),
                                     (''id'', JStr ''nonexistent'')]))
   \<and> deleteByIds broken_vectorize [''nonexistent''] () = Inl (Error ''unavailable'')
   \<and> (\<exists>r. handleDelete_vectorize broken_vectorize (Some ''nonexistent'') () =
            (Inr r, (), [DeleteByIds [''nonexistent'']])
          \<and> status r = 500
          \<and> body r = JsonText (JObj [(''error'', JStr ''Failed to delete embedding'')]))"
proof -
  have h: "''nonexistent'' \<noteq> []" by simp
  have m: "deleteByIds memory_vectorize [''nonexistent''] [] = Inr []"
    by (simp add: memory_vectorize_def)
  have b: "deleteByIds broken_vectorize [''nonexistent''] () = Inl (Error ''unavailable'')"
    by (simp add: broken_vectorize_def)
  show ?thesis
    using h m b delete_is_idempotent [OF h, of memory_vectorize "[]"]
      delete_is_idempotent [OF h, of broken_vectorize "()"]
    by blast
qed

section \<open>Facts about arrays, spreading and serialisation\<close>

lemma dec_zero: "dec 0 = ''0''"
  by (simp add: dec.simps digit_def)

lemma dec_last: "last (dec n) = digit (n mod 10)"
  by (induction n rule: dec.induct) (subst dec.simps, simp)

lemma digit_not_h: "d < 10 \<Longrightarrow> digit d \<noteq> CHR ''h''"
proof -
  assume "d < 10"
  then have "''0123456789'' ! d \<in> set ''0123456789''"
    by (intro nth_mem) simp
  then show ?thesis
    unfolding digit_def by auto
qed

lemma dec_not_length: "dec n \<noteq> ''length''"
proof
  assume "dec n = ''length''"
  then have "last (dec n) = CHR ''h''" by simp
  then show False using digit_not_h [of "n mod 10"] by (simp add: dec_last)
qed

lemma property_length: "property (JArr xs) ''length'' = JNum (of_nat (length xs))"
proof -
  have "''length'' \<notin> set (map dec [0..<length xs])"
    using dec_not_length by (metis (no_types, lifting) imageE list.set_map)
  then have "map_of (zip (map dec [0..<length xs]) xs) ''length'' = None"
    by (metis (no_types, lifting) map_of_zip_is_None length_map length_upt diff_zero)
  then show ?thesis
    by (simp only: property_def own_props.simps option.simps inherited.simps if_True refl)
qed

lemma property_first: "property (JArr (x # xs)) ''0'' = x"
  by (simp add: property_def upt_rec dec_zero)

lemma json_serialisable: "is_json v \<Longrightarrow> \<not> unserialisable v"
  by (cases v) simp_all

lemma json_of_id: "is_json v \<Longrightarrow> json_of v = v"
  and json_props_id: "is_json_props kvs \<Longrightarrow> json_props kvs = kvs"
  and json_elems_id: "is_json_elems xs \<Longrightarrow> json_elems xs = xs"
  by (induction v and kvs and xs rule: json_of_json_props_json_elems.induct)
     (simp_all add: json_serialisable)

lemma json_of_is_json: "\<not> unserialisable v \<Longrightarrow> is_json (json_of v)"
  and json_props_is_json: "is_json_props (json_props kvs)"
  and json_elems_is_json: "is_json_elems (json_elems xs)"
  by (induction v and kvs and xs rule: json_of_json_props_json_elems.induct) simp_all

lemma json_of_serialisable: "unserialisable (json_of v) = unserialisable v"
  by (cases v) simp_all

lemma json_props_absent: "k \<notin> fst ` set kvs \<Longrightarrow> map_of (json_props kvs) k = None"
  by (induction kvs) auto

lemma map_of_set_prop: "map_of (set_prop k v kvs) = (map_of kvs)(k \<mapsto> v)"
  by (induction kvs) (auto simp: fun_upd_twist)

lemma map_of_assign_all:
  "map_of (foldl (\<lambda>acc (k, v). set_prop k v acc) base ps) = map_of base ++ map_of (rev ps)"
proof (induction ps arbitrary: base)
  case Nil
  then show ?case by simp
next
  case (Cons p ps)
  obtain k v where p: "p = (k, v)" by (cases p)
  have "map_of (foldl (\<lambda>acc (k, v). set_prop k v acc) base (p # ps))
          = map_of (set_prop k v base) ++ map_of (rev ps)"
    by (simp add: Cons.IH p)
  also have "\<dots> = (map_of base)(k \<mapsto> v) ++ map_of (rev ps)"
    by (simp only: map_of_set_prop)
  also have "\<dots> = map_of base ++ map_of (rev (p # ps))"
    by (rule ext) (simp add: p map_add_def split: option.splits)
  finally show ?case .
qed

lemma map_of_rev_distinct: "distinct (map fst ps) \<Longrightarrow> map_of (rev ps) = map_of ps"
proof (induction ps)
  case Nil
  then show ?case by simp
next
  case (Cons p ps)
  obtain k v where p: "p = (k, v)" by (cases p)
  from Cons.prems p have k: "map_of ps k = None"
    by (simp add: map_of_eq_None_iff)
  from Cons have ih: "map_of (rev ps) = map_of ps" by simp
  show ?case
    by (rule ext) (simp add: p ih k map_add_def split: option.splits)
qed

lemma map_of_spread_props:
  assumes "distinct (map fst (own_props m))"
  shows "map_of (spread base m) = map_of base ++ map_of (own_props m)"
  by (simp add: spread_def map_of_assign_all map_of_rev_distinct [OF assms])

lemma json_of_twice: "json_of (json_of v) = json_of v"
proof (cases "unserialisable v")
  case True
  then show ?thesis by (cases v) simp_all
next
  case False
  then show ?thesis by (simp add: json_of_is_json json_of_id)
qed

text \<open>What the get handler of the KV worker reads back from the payload it stored.\<close>

lemma kv_payload_read:
  "json_props [(''id'', JStr i),
               (''text'', property (JObj (json_props [(''text'', JStr T), (''embedding'', E),
                                                       (''timestamp'', JStr N)])) ''text''),
               (''embedding'', property (JObj (json_props [(''text'', JStr T), (''embedding'', E),
                                                       (''timestamp'', JStr N)])) ''embedding''),
               (''timestamp'', property (JObj (json_props [(''text'', JStr T), (''embedding'', E),
                                                       (''timestamp'', JStr N)])) ''timestamp'')]
   = json_props [(''id'', JStr i), (''text'', JStr T), (''embedding'', E), (''timestamp'', JStr N)]"
  by (simp add: property_obj json_of_twice json_of_serialisable)

section \<open>The path of a create request that reaches the store\<close>

lemma embed_vectorize_path:
  assumes "Authorization request = Some a" and "startsWith a ''Bearer ''"
    and "json request = Inr b" and "property b ''text'' = JStr T" and "T \<noteq> []"
    and "fetch rt (embeddings_call a (JStr T)) = Inr response" and "ok response"
    and "up_json response = Inr reply"
    and "first_embedding (property reply ''data'') = Inr E"
  shows "handleEmbed_vectorize rt V request s =
     (let ident = substring 2 15 (random36 rt);
          stored = \<lparr>vec_id = ident, vec_values = E,
             vec_metadata = JObj (spread [(''text'', JStr T), (''timestamp'', JStr (now_iso rt))]
                                   (default_to (property b ''metadata'') (JObj [])))\<rparr>;
          calls = [Fetch (embeddings_call a (JStr T)), Upsert [stored]]
      in case upsert V [stored] s of
           Inl e \<Rightarrow> (errorResponse_vectorize ''Failed to store embedding'' 500, s, calls)
         | Inr s' \<Rightarrow> (jsonResponse_vectorize (JObj [(''id'', JStr ident)]) 200, s', calls))"
proof -
  have nn: "\<not> is_nullish b"
    using assms(4) property_nullish [of b "''text''"] by auto
  have j: "json_or_empty request = b"
    using assms(3) by (simp add: json_or_empty_def)
  have rn: "\<not> is_nullish reply"
  proof
    assume "is_nullish reply"
    then have "property reply ''data'' = JUndefined" by (rule property_nullish)
    with assms(9) show False by (simp add: first_embedding_def get_prop_def)
  qed
  show ?thesis
    using assms nn j rn
    by (simp add: handleEmbed_vectorize_def Let_def)
qed

lemma embed_kv_path:
  assumes "Authorization request = Some a" and "startsWith a ''Bearer ''"
    and "json request = Inr b" and "property b ''text'' = JStr T" and "T \<noteq> []"
    and "fetch rt (embeddings_call a (JStr T)) = Inr response" and "ok response"
    and "up_json response = Inr reply"
    and "first_embedding (property reply ''data'') = Inr E"
  shows "handleEmbed_kv rt K request s =
     (let ident = substring 2 10 (random36 rt);
          stored = JSON_stringify (JObj [(''text'', JStr T), (''embedding'', E),
                                         (''timestamp'', JStr (now_iso rt))]);
          calls = [Fetch (embeddings_call a (JStr T)), KvPut ident stored]
      in case kv_put K ident stored s of
           Inl e \<Rightarrow> (Inl e, s, calls)
         | Inr s' \<Rightarrow> (jsonResponse_kv (JObj [(''id'', JStr ident)]) 200, s', calls))"
proof -
  have nn: "\<not> is_nullish b"
    using assms(4) property_nullish [of b "''text''"] by auto
  have j: "json_or_empty request = b"
    using assms(3) by (simp add: json_or_empty_def)
  have rn: "\<not> is_nullish reply"
  proof
    assume "is_nullish reply"
    then have "property reply ''data'' = JUndefined" by (rule property_nullish)
    with assms(9) show False by (simp add: first_embedding_def get_prop_def)
  qed
  show ?thesis
    using assms nn j rn bearer_rebuilt [OF assms(2)]
    by (simp add: handleEmbed_kv_def Let_def split: sum.splits)
qed


section \<open>Facts about the sample inputs\<close>

lemma request_plain_facts:
  "Authorization request_plain = Some ''Bearer test-api-key''"
  "json request_plain = Inr plain_body"
  "property plain_body ''text'' = JStr ''hello''"
  "property plain_body ''metadata'' = JUndefined"
  by (simp_all add: request_plain_def plain_body_def property_obj)

lemma request_hello_facts:
  "Authorization request_hello = Some ''Bearer test-api-key''"
  "json request_hello = Inr hello_body"
  "property hello_body ''text'' = JStr ''hello''"
  "property hello_body ''metadata'' = JObj hello_metadata"
  "distinct (map fst hello_metadata)"
  "map_of hello_metadata ''text'' = Some (JStr ''other'')"
  "map_of hello_metadata ''timestamp'' = Some (JStr ''2024-01-15'')"
  by (simp_all add: request_hello_def hello_body_def hello_metadata_def property_obj)

lemma test_key_is_bearer: "startsWith ''Bearer test-api-key'' ''Bearer ''"
  by (simp add: startsWith_def)

lemma good_runtime_facts:
  "fetch good_runtime init = Inr (embedding_reply 200 good_reply)"
  "ok (embedding_reply 200 good_reply)"
  "up_json (embedding_reply 200 good_reply) = Inr good_reply"
  "first_embedding (property good_reply ''data'') = Inr good_embedding"
  "is_json good_embedding"
  "random36 good_runtime = ''0.4fzyo82mvyr''"
  "now_iso good_runtime = ''2024-01-01T12:00:00.000Z''"
  by (simp_all add: good_runtime_def runtime_with_def embedding_reply_def ok_def good_reply_def
      good_embedding_def first_embedding_def get_prop_def property_obj property_first)

lemma memory_vectorize_keeps:
  "upsert memory_vectorize [v] st = Inr st' \<Longrightarrow>
     getByIds memory_vectorize [vec_id v] st' = Inr [v]"
  by (auto simp: memory_vectorize_def)

lemma memory_kv_keeps:
  "kv_put memory_kv k v st = Inr st' \<Longrightarrow> kv_get memory_kv k st' = Inr (Some v)"
  by (auto simp: memory_kv_def)

lemma sample_ids:
  "substring 2 15 (random36 good_runtime) = ''4fzyo82mvyr''"
  "substring 2 10 (random36 good_runtime) = ''4fzyo82m''"
  by (simp_all add: good_runtime_facts substring_def)

lemma sample_create_vectorize:
  "handleEmbed_vectorize good_runtime memory_vectorize request_plain [] =
     (jsonResponse_vectorize (JObj [(''id'', JStr ''4fzyo82mvyr'')]) 200,
      [stored_plain],
      [Fetch (embeddings_call ''Bearer test-api-key'' (JStr ''hello'')), Upsert [stored_plain]])"
  unfolding embed_vectorize_path [OF request_plain_facts(1) test_key_is_bearer
      request_plain_facts(2,3) _ good_runtime_facts(1-4), simplified]
  by (simp add: Let_def substring_def good_runtime_facts request_plain_facts default_to_def
      spread_def memory_vectorize_def stored_plain_def)

lemma sample_create_kv:
  "handleEmbed_kv good_runtime memory_kv request_plain [] =
     (jsonResponse_kv (JObj [(''id'', JStr ''4fzyo82m'')]) 200,
      [(''4fzyo82m'', kv_plain)],
      [Fetch (embeddings_call ''Bearer test-api-key'' (JStr ''hello'')),
       KvPut ''4fzyo82m'' kv_plain])"
  unfolding embed_kv_path [OF request_plain_facts(1) test_key_is_bearer
      request_plain_facts(2,3) _ good_runtime_facts(1-4), simplified]
  by (simp add: Let_def substring_def good_runtime_facts memory_kv_def kv_plain_def
      JSON_stringify_def good_embedding_def)


lemma sample_create_hello:
  "handleEmbed_vectorize good_runtime memory_vectorize request_hello [] =
     (jsonResponse_vectorize (JObj [(''id'', JStr ''4fzyo82mvyr'')]) 200,
      [stored_hello],
      [Fetch (embeddings_call ''Bearer test-api-key'' (JStr ''hello'')), Upsert [stored_hello]])"
  unfolding embed_vectorize_path [OF request_hello_facts(1) test_key_is_bearer
      request_hello_facts(2,3) _ good_runtime_facts(1-4), simplified]
  by (simp add: Let_def substring_def good_runtime_facts request_hello_facts default_to_def
      spread_def hello_metadata_def memory_vectorize_def stored_hello_def)

lemma hello_metadata_props:
  "own_props (default_to (property hello_body ''metadata'') (JObj [])) = hello_metadata"
  by (simp add: request_hello_facts default_to_def)

lemma request_tagged_facts:
  "Authorization request_tagged = Some ''Bearer test-api-key''"
  "json request_tagged = Inr tagged_body"
  "property tagged_body ''text'' = JStr ''hello''"
  "own_props (default_to (property tagged_body ''metadata'') (JObj [])) = [(''tag'', JStr ''x'')]"
  "distinct (map fst [(''tag'', JStr ''x'')])"
  "property tagged_body ''metadata'' = JObj [(''tag'', JStr ''x'')]"
  by (simp_all add: request_tagged_def tagged_body_def property_obj default_to_def)

lemma plain_metadata_props:
  "own_props (default_to (property plain_body ''metadata'') (JObj [])) = []"
  "distinct (map fst ([] :: (string \<times> jsval) list))"
  by (simp_all add: request_plain_facts default_to_def)

lemma overflow_runtime_facts:
  "fetch overflow_runtime init = Inr (embedding_reply 200 overflow_reply)"
  "ok (embedding_reply 200 overflow_reply)"
  "up_json (embedding_reply 200 overflow_reply) = Inr overflow_reply"
  "first_embedding (property overflow_reply ''data'') = Inr overflow_embedding"
  "random36 overflow_runtime = ''0.4fzyo82mvyr''"
  "now_iso overflow_runtime = ''2024-01-01T12:00:00.000Z''"
  by (simp_all add: overflow_runtime_def runtime_with_def embedding_reply_def ok_def
      overflow_reply_def first_embedding_def get_prop_def property_obj property_first)

lemma overflow_ids:
  "substring 2 15 (random36 overflow_runtime) = ''4fzyo82mvyr''"
  "substring 2 10 (random36 overflow_runtime) = ''4fzyo82m''"
  by (simp_all add: overflow_runtime_facts substring_def)

lemma sample_create_tagged:
  "handleEmbed_vectorize good_runtime memory_vectorize request_tagged [] =
     (jsonResponse_vectorize (JObj [(''id'', JStr ''4fzyo82mvyr'')]) 200,
      [stored_tagged],
      [Fetch (embeddings_call ''Bearer test-api-key'' (JStr ''hello'')), Upsert [stored_tagged]])"
  unfolding embed_vectorize_path [OF request_tagged_facts(1) test_key_is_bearer
      request_tagged_facts(2,3) _ good_runtime_facts(1-4), simplified]
  by (simp add: Let_def substring_def good_runtime_facts request_tagged_facts default_to_def
      spread_def memory_vectorize_def stored_tagged_def)

lemma sample_create_kv_tagged:
  "handleEmbed_kv good_runtime memory_kv request_tagged [] =
     (jsonResponse_kv (JObj [(''id'', JStr ''4fzyo82m'')]) 200,
      [(''4fzyo82m'', kv_plain)],
      [Fetch (embeddings_call ''Bearer test-api-key'' (JStr ''hello'')),
       KvPut ''4fzyo82m'' kv_plain])"
  unfolding embed_kv_path [OF request_tagged_facts(1) test_key_is_bearer
      request_tagged_facts(2,3) _ good_runtime_facts(1-4), simplified]
  by (simp add: Let_def substring_def good_runtime_facts memory_kv_def kv_plain_def
      JSON_stringify_def good_embedding_def)

lemma sample_create_overflow:
  "handleEmbed_vectorize overflow_runtime memory_vectorize request_plain [] =
     (jsonResponse_vectorize (JObj [(''id'', JStr ''4fzyo82mvyr'')]) 200,
      [stored_overflow],
      [Fetch (embeddings_call ''Bearer test-api-key'' (JStr ''hello'')),
       Upsert [stored_overflow]])"
  unfolding embed_vectorize_path [OF request_plain_facts(1) test_key_is_bearer
      request_plain_facts(2,3) _ overflow_runtime_facts(1-4), simplified]
  by (simp add: Let_def substring_def overflow_runtime_facts request_plain_facts default_to_def
      spread_def memory_vectorize_def stored_overflow_def)

lemma sample_create_kv_overflow:
  "handleEmbed_kv overflow_runtime memory_kv request_plain [] =
     (jsonResponse_kv (JObj [(''id'', JStr ''4fzyo82m'')]) 200,
      [(''4fzyo82m'', kv_overflow)],
      [Fetch (embeddings_call ''Bearer test-api-key'' (JStr ''hello'')),
       KvPut ''4fzyo82m'' kv_overflow])"
  unfolding embed_kv_path [OF request_plain_facts(1) test_key_is_bearer
      request_plain_facts(2,3) _ overflow_runtime_facts(1-4), simplified]
  by (simp add: Let_def substring_def overflow_runtime_facts memory_kv_def kv_overflow_def
      JSON_stringify_def overflow_embedding_def)

section \<open>Caller metadata against the system fields\<close>

text \<open>
  Claim C10.  In the worker backed by Vectorize the stored metadata is
  \<open>{ text, timestamp, ...metadata }\<close>.  Take a create request that reaches the store, and
  let \<open>M\<close> be the own properties of its \<open>metadata\<close> (of \<open>{}\<close> when the request has none).
  The record handed to \<open>upsert\<close> has as metadata the two system fields overridden by
  \<open>M\<close>: every key of \<open>M\<close> has the caller's value, and \<open>text\<close> and \<open>timestamp\<close> have the
  request text and the handler's timestamp only where \<open>M\<close> lacks the key.  So a caller's
  \<open>text\<close> or \<open>timestamp\<close> replaces the handler's.
\<close>

theorem caller_metadata_overrides:
  assumes "Authorization request = Some a" and "startsWith a ''Bearer ''"
    and "json request = Inr b" and "property b ''text'' = JStr T" and "T \<noteq> []"
    and "own_props (default_to (property b ''metadata'') (JObj [])) = M"
    and "distinct (map fst M)"
    and "fetch rt (embeddings_call a (JStr T)) = Inr response" and "ok response"
    and "up_json response = Inr reply"
    and "first_embedding (property reply ''data'') = Inr E"
  shows "\<exists>out s' fields.
           handleEmbed_vectorize rt V request s =
             (out, s', [Fetch (embeddings_call a (JStr T)),
                        Upsert [\<lparr>vec_id = substring 2 15 (random36 rt), vec_values = E,
                                 vec_metadata = JObj fields\<rparr>]])
         \<and> map_of fields =
             map_of [(''text'', JStr T), (''timestamp'', JStr (now_iso rt))] ++ map_of M
         \<and> (\<forall>v. map_of M ''text'' = Some v \<longrightarrow> property (JObj fields) ''text'' = v)
         \<and> (\<forall>v. map_of M ''timestamp'' = Some v \<longrightarrow>
                property (JObj fields) ''timestamp'' = v)"
proof -
  define fields where "fields =
    spread [(''text'', JStr T), (''timestamp'', JStr (now_iso rt))]
      (default_to (property b ''metadata'') (JObj []))"
  have m: "map_of fields =
             map_of [(''text'', JStr T), (''timestamp'', JStr (now_iso rt))] ++ map_of M"
    unfolding fields_def using assms(6,7) by (simp only: map_of_spread_props)
  have run: "\<exists>out s'. handleEmbed_vectorize rt V request s =
             (out, s', [Fetch (embeddings_call a (JStr T)),
                        Upsert [\<lparr>vec_id = substring 2 15 (random36 rt), vec_values = E,
                                 vec_metadata = JObj fields\<rparr>]])"
    unfolding embed_vectorize_path [OF assms(1-5) assms(8-11), of V s] Let_def fields_def
    by (simp split: sum.splits)
  have tx: "\<forall>v. map_of M ''text'' = Some v \<longrightarrow> property (JObj fields) ''text'' = v"
    by (simp add: property_obj m map_add_def)
  have ts: "\<forall>v. map_of M ''timestamp'' = Some v \<longrightarrow> property (JObj fields) ''timestamp'' = v"
    by (simp add: property_obj m map_add_def)
  from run m tx ts show ?thesis by blast
qed

theorem caller_metadata_overrides_witness:
  "property hello_body ''text'' = JStr ''hello''
   \<and> own_props (default_to (property hello_body ''metadata'') (JObj [])) = hello_metadata
   \<and> map_of hello_metadata ''text'' = Some (JStr ''other'')
   \<and> map_of hello_metadata ''timestamp'' = Some (JStr ''2024-01-15'')
   \<and> now_iso good_runtime = ''2024-01-01T12:00:00.000Z''
   \<and> (\<exists>out s' fields.
          handleEmbed_vectorize good_runtime memory_vectorize request_hello [] =
            (out, s', [Fetch (embeddings_call ''Bearer test-api-key'' (JStr ''hello'')),
                       Upsert [\<lparr>vec_id = ''4fzyo82mvyr'', vec_values = good_embedding,
                                vec_metadata = JObj fields\<rparr>]])
        \<and> property (JObj fields) ''text'' = JStr ''other''
        \<and> property (JObj fields) ''timestamp'' = JStr ''2024-01-15''
        \<and> property (JObj fields) ''tag'' = JStr ''x'')
   \<and> property tagged_body ''text'' = JStr ''hello''
   \<and> own_props (default_to (property tagged_body ''metadata'') (JObj [])) = [(''tag'', JStr ''x'')]
   \<and> (\<exists>out s' fields.
          handleEmbed_vectorize good_runtime memory_vectorize request_tagged [] =
            (out, s', [Fetch (embeddings_call ''Bearer test-api-key'' (JStr ''hello'')),
                       Upsert [\<lparr>vec_id = ''4fzyo82mvyr'', vec_values = good_embedding,
                                vec_metadata = JObj fields\<rparr>]])
        \<and> property (JObj fields) ''text'' = JStr ''hello''
        \<and> property (JObj fields) ''timestamp'' = JStr ''2024-01-01T12:00:00.000Z''
        \<and> property (JObj fields) ''tag'' = JStr ''x'')"
proof -
  have ne: "''hello'' \<noteq> []" by simp
  note t1 = caller_metadata_overrides [OF request_hello_facts(1) test_key_is_bearer
      request_hello_facts(2,3) ne hello_metadata_props request_hello_facts(5)
      good_runtime_facts(1-4), of memory_vectorize "[]",
      unfolded sample_ids good_runtime_facts(7)]
  note t2 = caller_metadata_overrides [OF request_tagged_facts(1) test_key_is_bearer
      request_tagged_facts(2,3) ne request_tagged_facts(4,5)
      good_runtime_facts(1-4), of memory_vectorize "[]",
      unfolded sample_ids good_runtime_facts(7)]
  from t1 obtain out1 s1 f1 where r1:
    "handleEmbed_vectorize good_runtime memory_vectorize request_hello [] =
       (out1, s1, [Fetch (embeddings_call ''Bearer test-api-key'' (JStr ''hello'')),
                   Upsert [\<lparr>vec_id = ''4fzyo82mvyr'', vec_values = good_embedding,
                            vec_metadata = JObj f1\<rparr>]])"
    and m1: "map_of f1 = map_of [(''text'', JStr ''hello''),
                (''timestamp'', JStr ''2024-01-01T12:00:00.000Z'')] ++ map_of hello_metadata"
    by blast
  from t2 obtain out2 s2 f2 where r2:
    "handleEmbed_vectorize good_runtime memory_vectorize request_tagged [] =
       (out2, s2, [Fetch (embeddings_call ''Bearer test-api-key'' (JStr ''hello'')),
                   Upsert [\<lparr>vec_id = ''4fzyo82mvyr'', vec_values = good_embedding,
                            vec_metadata = JObj f2\<rparr>]])"
    and m2: "map_of f2 = map_of [(''text'', JStr ''hello''),
                (''timestamp'', JStr ''2024-01-01T12:00:00.000Z'')]
              ++ map_of [(''tag'', JStr ''x'')]"
    by blast
  have p1: "property (JObj f1) ''text'' = JStr ''other''
        \<and> property (JObj f1) ''timestamp'' = JStr ''2024-01-15''
        \<and> property (JObj f1) ''tag'' = JStr ''x''"
    by (simp add: property_obj m1 map_add_def hello_metadata_def)
  have p2: "property (JObj f2) ''text'' = JStr ''hello''
        \<and> property (JObj f2) ''timestamp'' = JStr ''2024-01-01T12:00:00.000Z''
        \<and> property (JObj f2) ''tag'' = JStr ''x''"
    by (simp add: property_obj m2 map_add_def)
  from r1 p1 have e1: "\<exists>out s' fields.
          handleEmbed_vectorize good_runtime memory_vectorize request_hello [] =
            (out, s', [Fetch (embeddings_call ''Bearer test-api-key'' (JStr ''hello'')),
                       Upsert [\<lparr>vec_id = ''4fzyo82mvyr'', vec_values = good_embedding,
                                vec_metadata = JObj fields\<rparr>]])
        \<and> property (JObj fields) ''text'' = JStr ''other''
        \<and> property (JObj fields) ''timestamp'' = JStr ''2024-01-15''
        \<and> property (JObj fields) ''tag'' = JStr ''x''"
    by blast
  from r2 p2 have e2: "\<exists>out s' fields.
          handleEmbed_vectorize good_runtime memory_vectorize request_tagged [] =
            (out, s', [Fetch (embeddings_call ''Bearer test-api-key'' (JStr ''hello'')),
                       Upsert [\<lparr>vec_id = ''4fzyo82mvyr'', vec_values = good_embedding,
                                vec_metadata = JObj fields\<rparr>]])
        \<and> property (JObj fields) ''text'' = JStr ''hello''
        \<and> property (JObj fields) ''timestamp'' = JStr ''2024-01-01T12:00:00.000Z''
        \<and> property (JObj fields) ''tag'' = JStr ''x''"
    by blast
  show ?thesis
    by (intro conjI) (rule request_hello_facts(3) hello_metadata_props request_hello_facts(6)
        request_hello_facts(7) good_runtime_facts(7) e1 request_tagged_facts(3)
        request_tagged_facts(4) e2)+
qed

section \<open>Creating, then retrieving\<close>

text \<open>
  Claim C1 against the code.  Take a create request with text \<open>T\<close> to which the provider
  answers with \<open>E\<close> as \<open>data[0].embedding\<close>; let \<open>M\<close> be the own properties of the
  request's \<open>metadata\<close> (of \<open>{}\<close> when it has none), and let the create succeed with
  status 200 and a non-empty id on a store that returns what was written under an id.
  The create response is \<open>{id}\<close>.  Retrieving that id answers 200 with what
  \<open>JSON.stringify\<close> writes for the four properties \<open>id\<close>, \<open>text\<close>, \<open>embedding\<close> and
  \<open>timestamp\<close>: in neither worker is there a \<open>metadata\<close> property.  In the worker backed
  by Vectorize \<open>text\<close> and \<open>timestamp\<close> are those of the stored metadata, the caller's
  where \<open>M\<close> has the key; in the worker backed by KV, which reads no metadata, they are
  \<open>T\<close> and the handler's timestamp.  The embedding is \<open>E\<close> as JSON text carries it:
  unchanged but for a number that is not finite, which comes back as \<open>null\<close>, and
  negative zero, which comes back as \<open>0\<close>.
\<close>

theorem create_then_get:
  assumes "Authorization request = Some a" and "startsWith a ''Bearer ''"
    and "json request = Inr b" and "property b ''text'' = JStr T" and "T \<noteq> []"
    and "fetch rt (embeddings_call a (JStr T)) = Inr response" and "ok response"
    and "up_json response = Inr reply"
    and "first_embedding (property reply ''data'') = Inr E"
    and "own_props (default_to (property b ''metadata'') (JObj [])) = M"
    and "distinct (map fst M)"
  shows "(\<forall>r s' calls.
            handleEmbed_vectorize rt V request s = (Inr r, s', calls) \<and> status r = 200
            \<and> substring 2 15 (random36 rt) \<noteq> []
            \<and> (\<forall>v st st'. upsert V [v] st = Inr st' \<longrightarrow> getByIds V [vec_id v] st' = Inr [v])
            \<longrightarrow> body r = JsonText (JObj [(''id'', JStr (substring 2 15 (random36 rt)))])
              \<and> (\<exists>r' fields.
                    handleGet_vectorize V (Some (substring 2 15 (random36 rt))) s' =
                      (Inr r', s', [GetByIds [substring 2 15 (random36 rt)]])
                  \<and> status r' = 200
                  \<and> body r' = JsonText (JObj fields)
                  \<and> fields = json_props
                       [(''id'', JStr (substring 2 15 (random36 rt))),
                        (''text'', case map_of M ''text'' of Some v \<Rightarrow> v | None \<Rightarrow> JStr T),
                        (''embedding'', E),
                        (''timestamp'', case map_of M ''timestamp'' of
                                          Some v \<Rightarrow> v | None \<Rightarrow> JStr (now_iso rt))]
                  \<and> map_of fields ''metadata'' = None))
       \<and> (\<forall>r t' calls.
            handleEmbed_kv rt K request t = (Inr r, t', calls) \<and> status r = 200
            \<and> substring 2 10 (random36 rt) \<noteq> []
            \<and> (\<forall>k v st st'. kv_put K k v st = Inr st' \<longrightarrow> kv_get K k st' = Inr (Some v))
            \<longrightarrow> body r = JsonText (JObj [(''id'', JStr (substring 2 10 (random36 rt)))])
              \<and> (\<exists>r' fields.
                    handleGet_kv K (Some (substring 2 10 (random36 rt))) t' =
                      (Inr r', t', [KvGet (substring 2 10 (random36 rt))])
                  \<and> status r' = 200
                  \<and> body r' = JsonText (JObj fields)
                  \<and> fields = json_props
                       [(''id'', JStr (substring 2 10 (random36 rt))),
                        (''text'', JStr T),
                        (''embedding'', E),
                        (''timestamp'', JStr (now_iso rt))]
                  \<and> map_of fields ''metadata'' = None))"
proof (intro conjI allI impI)
  fix r s' calls
  define ident where "ident = substring 2 15 (random36 rt)"
  define meta where "meta = spread [(''text'', JStr T), (''timestamp'', JStr (now_iso rt))]
                                   (default_to (property b ''metadata'') (JObj []))"
  define stored where "stored = \<lparr>vec_id = ident, vec_values = E, vec_metadata = JObj meta\<rparr>"
  define mt where "mt = (case map_of M ''text'' of Some v \<Rightarrow> v | None \<Rightarrow> JStr T)"
  define ms where "ms = (case map_of M ''timestamp'' of
                           Some v \<Rightarrow> v | None \<Rightarrow> JStr (now_iso rt))"
  assume h: "handleEmbed_vectorize rt V request s = (Inr r, s', calls) \<and> status r = 200
            \<and> substring 2 15 (random36 rt) \<noteq> []
            \<and> (\<forall>v st st'. upsert V [v] st = Inr st' \<longrightarrow> getByIds V [vec_id v] st' = Inr [v])"
  from h have created: "handleEmbed_vectorize rt V request s = (Inr r, s', calls)"
    and st200: "status r = 200"
    and law: "\<forall>v st st'. upsert V [v] st = Inr st' \<longrightarrow> getByIds V [vec_id v] st' = Inr [v]"
    by simp_all
  have p: "handleEmbed_vectorize rt V request s =
      (case upsert V [stored] s of
           Inl e \<Rightarrow> (errorResponse_vectorize ''Failed to store embedding'' 500, s,
                      [Fetch (embeddings_call a (JStr T)), Upsert [stored]])
         | Inr s' \<Rightarrow> (jsonResponse_vectorize (JObj [(''id'', JStr ident)]) 200, s',
                      [Fetch (embeddings_call a (JStr T)), Upsert [stored]]))"
    unfolding embed_vectorize_path [OF assms(1-9), of V s] Let_def stored_def meta_def
      ident_def ..
  have up: "upsert V [stored] s = Inr s'
            \<and> jsonResponse_vectorize (JObj [(''id'', JStr ident)]) 200 = Inr r"
  proof (cases "upsert V [stored] s")
    case (Inl e)
    with p created have "errorResponse_vectorize ''Failed to store embedding'' 500 = Inr r"
      by simp
    with st200 show ?thesis by (auto simp: errorResponse_vectorize_fields)
  next
    case (Inr s'')
    with p created show ?thesis by simp
  qed
  then show "body r = JsonText (JObj [(''id'', JStr (substring 2 15 (random36 rt)))])"
    by (auto simp: id_response_vectorize ident_def)
  have "vec_id stored = ident" by (simp add: stored_def)
  with up law have g: "getByIds V [ident] s' = Inr [stored]"
    by metis
  have ne: "ident \<noteq> []" using h by (simp add: ident_def)
  have m: "map_of meta =
             map_of [(''text'', JStr T), (''timestamp'', JStr (now_iso rt))] ++ map_of M"
    unfolding meta_def using assms(10,11) by (simp only: map_of_spread_props)
  have tx: "property (JObj meta) ''text'' = mt"
    by (simp add: property_obj m map_add_def mt_def split: option.splits)
  have ts: "property (JObj meta) ''timestamp'' = ms"
    by (simp add: property_obj m map_add_def ms_def split: option.splits)
  have get: "handleGet_vectorize V (Some ident) s' =
          (jsonResponse_vectorize
                  (JObj [(''id'', JStr ident), (''text'', mt), (''embedding'', E),
                         (''timestamp'', ms)]) 200,
           s', [GetByIds [ident]])"
    using g ne by (simp add: handleGet_vectorize_def get_prop_def stored_def tx ts)
  have absent: "map_of (json_props [(''id'', JStr ident), (''text'', mt), (''embedding'', E),
                         (''timestamp'', ms)]) ''metadata'' = None"
    by (rule json_props_absent) simp
  show "\<exists>r' fields.
                    handleGet_vectorize V (Some (substring 2 15 (random36 rt))) s' =
                      (Inr r', s', [GetByIds [substring 2 15 (random36 rt)]])
                  \<and> status r' = 200
                  \<and> body r' = JsonText (JObj fields)
                  \<and> fields = json_props
                       [(''id'', JStr (substring 2 15 (random36 rt))),
                        (''text'', case map_of M ''text'' of Some v \<Rightarrow> v | None \<Rightarrow> JStr T),
                        (''embedding'', E),
                        (''timestamp'', case map_of M ''timestamp'' of
                                          Some v \<Rightarrow> v | None \<Rightarrow> JStr (now_iso rt))]
                  \<and> map_of fields ''metadata'' = None"
    unfolding ident_def [symmetric] mt_def [symmetric] ms_def [symmetric] get
    using absent
    by (simp only: jsonResponse_vectorize_200 JSON_stringify_def json_of.simps) simp
next
  fix r t' calls
  define ident where "ident = substring 2 10 (random36 rt)"
  define payload where "payload = json_props [(''text'', JStr T), (''embedding'', E),
                                         (''timestamp'', JStr (now_iso rt))]"
  define stored where "stored = JSON_stringify (JObj [(''text'', JStr T), (''embedding'', E),
                                         (''timestamp'', JStr (now_iso rt))])"
  assume h: "handleEmbed_kv rt K request t = (Inr r, t', calls) \<and> status r = 200
            \<and> substring 2 10 (random36 rt) \<noteq> []
            \<and> (\<forall>k v st st'. kv_put K k v st = Inr st' \<longrightarrow> kv_get K k st' = Inr (Some v))"
  from h have created: "handleEmbed_kv rt K request t = (Inr r, t', calls)"
    and law: "\<forall>k v st st'. kv_put K k v st = Inr st' \<longrightarrow> kv_get K k st' = Inr (Some v)"
    by simp_all
  have p: "handleEmbed_kv rt K request t =
      (case kv_put K ident stored t of
           Inl e \<Rightarrow> (Inl e, t, [Fetch (embeddings_call a (JStr T)), KvPut ident stored])
         | Inr s' \<Rightarrow> (jsonResponse_kv (JObj [(''id'', JStr ident)]) 200, s',
                      [Fetch (embeddings_call a (JStr T)), KvPut ident stored]))"
    unfolding embed_kv_path [OF assms(1-9), of K t] Let_def stored_def ident_def ..
  have up: "kv_put K ident stored t = Inr t'
            \<and> jsonResponse_kv (JObj [(''id'', JStr ident)]) 200 = Inr r"
  proof (cases "kv_put K ident stored t")
    case (Inl e)
    with p created show ?thesis by simp
  next
    case (Inr s'')
    with p created show ?thesis by simp
  qed
  then show "body r = JsonText (JObj [(''id'', JStr (substring 2 10 (random36 rt)))])"
    by (auto simp: id_response_kv ident_def)
  from up law have g: "kv_get K ident t' = Inr (Some stored)"
    by blast
  have ne: "ident \<noteq> []" using h by (simp add: ident_def)
  have st: "stored = JsonText (JObj payload)"
    by (simp only: stored_def payload_def JSON_stringify_def json_of.simps)
  have get: "handleGet_kv K (Some ident) t' =
      (jsonResponse_kv
         (JObj [(''id'', JStr ident),
                (''text'', property (JObj payload) ''text''),
                (''embedding'', property (JObj payload) ''embedding''),
                (''timestamp'', property (JObj payload) ''timestamp'')]) 200,
       t', [KvGet ident])"
    using g ne by (simp add: handleGet_kv_def st)
  have absent: "map_of (json_props [(''id'', JStr ident), (''text'', JStr T), (''embedding'', E),
                         (''timestamp'', JStr (now_iso rt))]) ''metadata'' = None"
    by (rule json_props_absent) simp
  show "\<exists>r' fields.
                    handleGet_kv K (Some (substring 2 10 (random36 rt))) t' =
                      (Inr r', t', [KvGet (substring 2 10 (random36 rt))])
                  \<and> status r' = 200
                  \<and> body r' = JsonText (JObj fields)
                  \<and> fields = json_props
                       [(''id'', JStr (substring 2 10 (random36 rt))),
                        (''text'', JStr T),
                        (''embedding'', E),
                        (''timestamp'', JStr (now_iso rt))]
                  \<and> map_of fields ''metadata'' = None"
    unfolding ident_def [symmetric] get
    using absent
    by (simp only: jsonResponse_kv_200 JSON_stringify_def json_of.simps payload_def
        kv_payload_read) simp
qed

theorem create_then_get_witness:
  "property tagged_body ''text'' = JStr ''hello''
   \<and> property tagged_body ''metadata'' = JObj [(''tag'', JStr ''x'')]
   \<and> handleEmbed_vectorize good_runtime memory_vectorize request_tagged [] =
       (jsonResponse_vectorize (JObj [(''id'', JStr ''4fzyo82mvyr'')]) 200,
        [stored_tagged],
        [Fetch (embeddings_call ''Bearer test-api-key'' (JStr ''hello'')),
         Upsert [stored_tagged]])
   \<and> vec_metadata stored_tagged =
       JObj [(''text'', JStr ''hello''), (''timestamp'', JStr ''2024-01-01T12:00:00.000Z''),
             (''tag'', JStr ''x'')]
   \<and> (\<exists>r'. handleGet_vectorize memory_vectorize (Some ''4fzyo82mvyr'') [stored_tagged] =
               (Inr r', [stored_tagged], [GetByIds [''4fzyo82mvyr'']])
           \<and> status r' = 200
           \<and> body r' = JsonText (JObj
                [(''id'', JStr ''4fzyo82mvyr''),
                 (''text'', JStr ''hello''),
                 (''embedding'', JArr [JNum (1 / 10), JNum (- (1 / 5))]),
                 (''timestamp'', JStr ''2024-01-01T12:00:00.000Z'')]))
   \<and> handleEmbed_kv good_runtime memory_kv request_tagged [] =
       (jsonResponse_kv (JObj [(''id'', JStr ''4fzyo82m'')]) 200,
        [(''4fzyo82m'', kv_plain)],
        [Fetch (embeddings_call ''Bearer test-api-key'' (JStr ''hello'')),
         KvPut ''4fzyo82m'' kv_plain])
   \<and> (\<exists>r'. handleGet_kv memory_kv (Some ''4fzyo82m'') [(''4fzyo82m'', kv_plain)] =
               (Inr r', [(''4fzyo82m'', kv_plain)], [KvGet ''4fzyo82m''])
           \<and> status r' = 200
           \<and> body r' = JsonText (JObj
                [(''id'', JStr ''4fzyo82m''),
                 (''text'', JStr ''hello''),
                 (''embedding'', JArr [JNum (1 / 10), JNum (- (1 / 5))]),
                 (''timestamp'', JStr ''2024-01-01T12:00:00.000Z'')]))
   \<and> first_embedding (property overflow_reply ''data'') =
       Inr (JArr [JSpecial PosInfinity, JSpecial NegZero, JNum (1 / 10)])
   \<and> (\<exists>r'. handleGet_vectorize memory_vectorize (Some ''4fzyo82mvyr'') [stored_overflow] =
               (Inr r', [stored_overflow], [GetByIds [''4fzyo82mvyr'']])
           \<and> status r' = 200
           \<and> body r' = JsonText (JObj
                [(''id'', JStr ''4fzyo82mvyr''),
                 (''text'', JStr ''hello''),
                 (''embedding'', JArr [JNull, JNum 0, JNum (1 / 10)]),
                 (''timestamp'', JStr ''2024-01-01T12:00:00.000Z'')]))
   \<and> (\<exists>r'. handleGet_kv memory_kv (Some ''4fzyo82m'') [(''4fzyo82m'', kv_overflow)] =
               (Inr r', [(''4fzyo82m'', kv_overflow)], [KvGet ''4fzyo82m''])
           \<and> status r' = 200
           \<and> body r' = JsonText (JObj
                [(''id'', JStr ''4fzyo82m''),
                 (''text'', JStr ''hello''),
                 (''embedding'', JArr [JNull, JNum 0, JNum (1 / 10)]),
                 (''timestamp'', JStr ''2024-01-01T12:00:00.000Z'')]))"
proof -
  let ?rv = "\<lparr>status = 200,
      headers = (''Content-Type'', ''application/json'') # CORS_HEADERS_vectorize,
      body = JsonText (JObj [(''id'', JStr ''4fzyo82mvyr'')])\<rparr>"
  let ?rk = "\<lparr>status = 200,
      headers = (''Content-Type'', ''application/json'') # CORS_HEADERS_kv,
      body = JsonText (JObj [(''id'', JStr ''4fzyo82m'')])\<rparr>"
  have ne: "''hello'' \<noteq> []" by simp
  have lawv: "\<forall>v st st'. upsert memory_vectorize [v] st = Inr st' \<longrightarrow>
               getByIds memory_vectorize [vec_id v] st' = Inr [v]"
    using memory_vectorize_keeps by blast
  have lawk: "\<forall>k v st st'. kv_put memory_kv k v st = Inr st' \<longrightarrow>
               kv_get memory_kv k st' = Inr (Some v)"
    using memory_kv_keeps by blast
  note t = create_then_get [OF request_tagged_facts(1) test_key_is_bearer
      request_tagged_facts(2,3) ne good_runtime_facts(1-4) request_tagged_facts(4,5),
      of memory_vectorize "[]" memory_kv "[]", unfolded sample_ids good_runtime_facts(7)]
  note u = create_then_get [OF request_plain_facts(1) test_key_is_bearer
      request_plain_facts(2,3) ne overflow_runtime_facts(1-4) plain_metadata_props,
      of memory_vectorize "[]" memory_kv "[]", unfolded overflow_ids overflow_runtime_facts(6)]
  have v: "handleEmbed_vectorize good_runtime memory_vectorize request_tagged [] =
           (Inr ?rv, [stored_tagged],
            [Fetch (embeddings_call ''Bearer test-api-key'' (JStr ''hello'')),
             Upsert [stored_tagged]])
        \<and> status ?rv = 200
        \<and> ''4fzyo82mvyr'' \<noteq> []
        \<and> (\<forall>v st st'. upsert memory_vectorize [v] st = Inr st' \<longrightarrow>
               getByIds memory_vectorize [vec_id v] st' = Inr [v])"
    using sample_create_tagged [unfolded id_response_vectorize] lawv by simp
  have k: "handleEmbed_kv good_runtime memory_kv request_tagged [] =
           (Inr ?rk, [(''4fzyo82m'', kv_plain)],
            [Fetch (embeddings_call ''Bearer test-api-key'' (JStr ''hello'')),
             KvPut ''4fzyo82m'' kv_plain])
        \<and> status ?rk = 200
        \<and> ''4fzyo82m'' \<noteq> []
        \<and> (\<forall>k v st st'. kv_put memory_kv k v st = Inr st' \<longrightarrow>
               kv_get memory_kv k st' = Inr (Some v))"
    using sample_create_kv_tagged [unfolded id_response_kv] lawk by simp
  have ov: "handleEmbed_vectorize overflow_runtime memory_vectorize request_plain [] =
           (Inr ?rv, [stored_overflow],
            [Fetch (embeddings_call ''Bearer test-api-key'' (JStr ''hello'')),
             Upsert [stored_overflow]])
        \<and> status ?rv = 200
        \<and> ''4fzyo82mvyr'' \<noteq> []
        \<and> (\<forall>v st st'. upsert memory_vectorize [v] st = Inr st' \<longrightarrow>
               getByIds memory_vectorize [vec_id v] st' = Inr [v])"
    using sample_create_overflow [unfolded id_response_vectorize] lawv by simp
  have ok: "handleEmbed_kv overflow_runtime memory_kv request_plain [] =
           (Inr ?rk, [(''4fzyo82m'', kv_overflow)],
            [Fetch (embeddings_call ''Bearer test-api-key'' (JStr ''hello'')),
             KvPut ''4fzyo82m'' kv_overflow])
        \<and> status ?rk = 200
        \<and> ''4fzyo82m'' \<noteq> []
        \<and> (\<forall>k v st st'. kv_put memory_kv k v st = Inr st' \<longrightarrow>
               kv_get memory_kv k st' = Inr (Some v))"
    using sample_create_kv_overflow [unfolded id_response_kv] lawk by simp
  from t v have g1:
    "\<exists>r'. handleGet_vectorize memory_vectorize (Some ''4fzyo82mvyr'') [stored_tagged] =
               (Inr r', [stored_tagged], [GetByIds [''4fzyo82mvyr'']])
           \<and> status r' = 200
           \<and> body r' = JsonText (JObj (json_props
                [(''id'', JStr ''4fzyo82mvyr''),
                 (''text'', case map_of [(''tag'', JStr ''x'')] ''text'' of
                              Some v \<Rightarrow> v | None \<Rightarrow> JStr ''hello''),
                 (''embedding'', good_embedding),
                 (''timestamp'', case map_of [(''tag'', JStr ''x'')] ''timestamp'' of
                              Some v \<Rightarrow> v | None \<Rightarrow> JStr ''2024-01-01T12:00:00.000Z'')]))"
    by blast
  from t k have g2:
    "\<exists>r'. handleGet_kv memory_kv (Some ''4fzyo82m'') [(''4fzyo82m'', kv_plain)] =
               (Inr r', [(''4fzyo82m'', kv_plain)], [KvGet ''4fzyo82m''])
           \<and> status r' = 200
           \<and> body r' = JsonText (JObj (json_props
                [(''id'', JStr ''4fzyo82m''),
                 (''text'', JStr ''hello''),
                 (''embedding'', good_embedding),
                 (''timestamp'', JStr ''2024-01-01T12:00:00.000Z'')]))"
    by blast
  from u ov have g3:
    "\<exists>r'. handleGet_vectorize memory_vectorize (Some ''4fzyo82mvyr'') [stored_overflow] =
               (Inr r', [stored_overflow], [GetByIds [''4fzyo82mvyr'']])
           \<and> status r' = 200
           \<and> body r' = JsonText (JObj (json_props
                [(''id'', JStr ''4fzyo82mvyr''),
                 (''text'', case map_of ([] :: (string \<times> jsval) list) ''text'' of
                              Some v \<Rightarrow> v | None \<Rightarrow> JStr ''hello''),
                 (''embedding'', overflow_embedding),
                 (''timestamp'', case map_of ([] :: (string \<times> jsval) list) ''timestamp'' of
                              Some v \<Rightarrow> v | None \<Rightarrow> JStr ''2024-01-01T12:00:00.000Z'')]))"
    by blast
  from u ok have g4:
    "\<exists>r'. handleGet_kv memory_kv (Some ''4fzyo82m'') [(''4fzyo82m'', kv_overflow)] =
               (Inr r', [(''4fzyo82m'', kv_overflow)], [KvGet ''4fzyo82m''])
           \<and> status r' = 200
           \<and> body r' = JsonText (JObj (json_props
                [(''id'', JStr ''4fzyo82m''),
                 (''text'', JStr ''hello''),
                 (''embedding'', overflow_embedding),
                 (''timestamp'', JStr ''2024-01-01T12:00:00.000Z'')]))"
    by blast
  show ?thesis
  proof (intro conjI)
    show "property tagged_body ''text'' = JStr ''hello''"
      by (rule request_tagged_facts(3))
    show "property tagged_body ''metadata'' = JObj [(''tag'', JStr ''x'')]"
      by (rule request_tagged_facts(6))
    show "handleEmbed_vectorize good_runtime memory_vectorize request_tagged [] =
       (jsonResponse_vectorize (JObj [(''id'', JStr ''4fzyo82mvyr'')]) 200,
        [stored_tagged],
        [Fetch (embeddings_call ''Bearer test-api-key'' (JStr ''hello'')),
         Upsert [stored_tagged]])"
      by (rule sample_create_tagged)
    show "vec_metadata stored_tagged =
       JObj [(''text'', JStr ''hello''), (''timestamp'', JStr ''2024-01-01T12:00:00.000Z''),
             (''tag'', JStr ''x'')]"
      by (simp add: stored_tagged_def)
    show "handleEmbed_kv good_runtime memory_kv request_tagged [] =
       (jsonResponse_kv (JObj [(''id'', JStr ''4fzyo82m'')]) 200,
        [(''4fzyo82m'', kv_plain)],
        [Fetch (embeddings_call ''Bearer test-api-key'' (JStr ''hello'')),
         KvPut ''4fzyo82m'' kv_plain])"
      by (rule sample_create_kv_tagged)
    show "first_embedding (property overflow_reply ''data'') =
       Inr (JArr [JSpecial PosInfinity, JSpecial NegZero, JNum (1 / 10)])"
      using overflow_runtime_facts(4) by (simp add: overflow_embedding_def)
    from g1 show
      "\<exists>r'. handleGet_vectorize memory_vectorize (Some ''4fzyo82mvyr'') [stored_tagged] =
               (Inr r', [stored_tagged], [GetByIds [''4fzyo82mvyr'']])
           \<and> status r' = 200
           \<and> body r' = JsonText (JObj
                [(''id'', JStr ''4fzyo82mvyr''),
                 (''text'', JStr ''hello''),
                 (''embedding'', JArr [JNum (1 / 10), JNum (- (1 / 5))]),
                 (''timestamp'', JStr ''2024-01-01T12:00:00.000Z'')])"
      by (simp add: good_embedding_def)
    from g2 show
      "\<exists>r'. handleGet_kv memory_kv (Some ''4fzyo82m'') [(''4fzyo82m'', kv_plain)] =
               (Inr r', [(''4fzyo82m'', kv_plain)], [KvGet ''4fzyo82m''])
           \<and> status r' = 200
           \<and> body r' = JsonText (JObj
                [(''id'', JStr ''4fzyo82m''),
                 (''text'', JStr ''hello''),
                 (''embedding'', JArr [JNum (1 / 10), JNum (- (1 / 5))]),
                 (''timestamp'', JStr ''2024-01-01T12:00:00.000Z'')])"
      by (simp add: good_embedding_def)
    from g3 show
      "\<exists>r'. handleGet_vectorize memory_vectorize (Some ''4fzyo82mvyr'') [stored_overflow] =
               (Inr r', [stored_overflow], [GetByIds [''4fzyo82mvyr'']])
           \<and> status r' = 200
           \<and> body r' = JsonText (JObj
                [(''id'', JStr ''4fzyo82mvyr''),
                 (''text'', JStr ''hello''),
                 (''embedding'', JArr [JNull, JNum 0, JNum (1 / 10)]),
                 (''timestamp'', JStr ''2024-01-01T12:00:00.000Z'')])"
      by (simp add: overflow_embedding_def)
    from g4 show
      "\<exists>r'. handleGet_kv memory_kv (Some ''4fzyo82m'') [(''4fzyo82m'', kv_overflow)] =
               (Inr r', [(''4fzyo82m'', kv_overflow)], [KvGet ''4fzyo82m''])
           \<and> status r' = 200
           \<and> body r' = JsonText (JObj
                [(''id'', JStr ''4fzyo82m''),
                 (''text'', JStr ''hello''),
                 (''embedding'', JArr [JNull, JNum 0, JNum (1 / 10)]),
                 (''timestamp'', JStr ''2024-01-01T12:00:00.000Z'')])"
      by (simp add: overflow_embedding_def)
  qed
qed

section \<open>Searching\<close>

lemma falsy_property: "\<not> truthy v \<Longrightarrow> k \<noteq> ''length'' \<Longrightarrow> property v k = JUndefined"
  by (cases v) (simp_all add: property_def)

lemma json_elems_results:
  "json_elems (map search_result ms) = map (\<lambda>m. json_of (search_result m)) ms"
  by (induction ms) (simp_all add: search_result_def)

lemma result_fields:
  "property (json_of (search_result m)) ''id'' = JStr (match_id m)"
  "property (json_of (search_result m)) ''score'' = JNum (match_score m)"
  by (simp_all add: search_result_def property_obj)


lemma search_path:
  assumes "Authorization request = Some a" and "startsWith a ''Bearer ''"
    and "json request = Inr b" and "property b ''query'' = JStr q" and "q \<noteq> []"
    and "fetch rt (embeddings_call a (JStr q)) = Inr response" and "ok response"
    and "up_json response = Inr reply"
    and "property (property (property reply ''data'') ''0'') ''embedding'' = JArr (x # xs)"
    and "opts = JObj ([(''topK'', if property b ''topK'' = JUndefined then JNum 5
                                  else property b ''topK''),
                       (''returnMetadata'', JBool True)]
                      @ (if truthy (property b ''filter'')
                         then [(''filter'', property b ''filter'')] else []))"
  shows "handleSearch_vectorize rt V request s =
      ((case query V (JArr (x # xs)) opts s of
          Inl e \<Rightarrow> errorResponse_vectorize (''Search failed: '' @ message rt e) 500
        | Inr matches \<Rightarrow>
            jsonResponse_vectorize
              (JObj [(''query'', JStr q), (''results'', JArr (map search_result matches))]) 200),
       s, [Fetch (embeddings_call a (JStr q)), Query (JArr (x # xs)) opts])"
proof -
  have nn: "\<not> is_nullish b"
    using assms(4) property_nullish [of b "''query''"] by auto
  have j: "json_or_empty request = b"
    using assms(3) by (simp add: json_or_empty_def)
  let ?data = "property reply ''data''"
  let ?d0 = "property ?data ''0''"
  have t0: "truthy ?d0"
  proof (rule ccontr)
    assume "\<not> truthy ?d0"
    then have "property ?d0 ''embedding'' = JUndefined" by (rule falsy_property) simp
    with assms(9) show False by simp
  qed
  have td: "truthy ?data"
  proof (rule ccontr)
    assume "\<not> truthy ?data"
    then have "?d0 = JUndefined" by (rule falsy_property) simp
    with t0 show False by simp
  qed
  have rn: "\<not> is_nullish reply"
  proof
    assume "is_nullish reply"
    then have "?data = JUndefined" by (rule property_nullish)
    with td show False by simp
  qed
  have len: "property (JArr (x # xs)) ''length'' \<noteq> JNum 0"
    by (simp add: property_length)
  show ?thesis
    using assms(1,2,5,6,7,8) nn j rn td t0 len
    unfolding assms(10)
    by (auto simp add: handleSearch_vectorize_def Let_def assms(4) assms(9) get_prop_def
        default_to_def split: sum.splits)
qed

text \<open>
  Claim C8.  Take a valid search request (a \<open>Bearer\<close> header, a non-empty string
  \<open>query\<close>) for which the provider answers with a non-empty array as
  \<open>data[0].embedding\<close>.  The handler calls the provider once and then \<open>query\<close> once, with
  that array and with the options \<open>topK\<close> (the body's value, or 5 when the body has
  none), \<open>returnMetadata: true\<close>, and \<open>filter\<close> exactly when the body's filter is truthy,
  so never when the body has none.  When \<open>query\<close> returns, the answer is 200 and its
  \<open>results\<close> are the store's matches, one result per match, in the store's order, each
  with the id and the score of its match.
\<close>

theorem search_passes_matches_through:
  assumes "Authorization request = Some a" and "startsWith a ''Bearer ''"
    and "json request = Inr b" and "property b ''query'' = JStr q" and "q \<noteq> []"
    and "fetch rt (embeddings_call a (JStr q)) = Inr response" and "ok response"
    and "up_json response = Inr reply"
    and "property (property (property reply ''data'') ''0'') ''embedding'' = JArr (x # xs)"
    and "opts = JObj ([(''topK'', if property b ''topK'' = JUndefined then JNum 5
                                  else property b ''topK''),
                       (''returnMetadata'', JBool True)]
                      @ (if truthy (property b ''filter'')
                         then [(''filter'', property b ''filter'')] else []))"
    and "query V (JArr (x # xs)) opts s = Inr matches"
  shows "\<exists>r results.
           handleSearch_vectorize rt V request s =
             (Inr r, s, [Fetch (embeddings_call a (JStr q)), Query (JArr (x # xs)) opts])
         \<and> status r = 200
         \<and> body r = JsonText (JObj [(''query'', JStr q), (''results'', JArr results)])
         \<and> length results = length matches
         \<and> (\<forall>i < length matches.
               property (results ! i) ''id'' = JStr (match_id (matches ! i))
             \<and> property (results ! i) ''score'' = JNum (match_score (matches ! i)))"
proof -
  note run = search_path [OF assms(1-10)]
  show ?thesis
    unfolding run
    by (simp add: assms(11) jsonResponse_vectorize_200 JSON_stringify_def json_elems_results
        result_fields)
qed

lemma search_body_facts:
  "Authorization request_search = Some ''Bearer test-api-key''"
  "json request_search = Inr search_body"
  "property search_body ''query'' = JStr ''greeting''"
  "property search_body ''topK'' = JUndefined"
  "property search_body ''filter'' = JObj [(''tag'', JStr ''x'')]"
  by (simp_all add: request_search_def search_body_def property_obj)

lemma good_reply_embedding:
  "property (property (property good_reply ''data'') ''0'') ''embedding''
     = JArr (JNum (1 / 10) # [JNum (- (1 / 5))])"
  by (simp add: good_reply_def good_embedding_def property_obj property_first)

lemma sample_query:
  "query memory_vectorize q opts [stored_plain] =
     Inr [\<lparr>match_id = ''4fzyo82mvyr'', match_score = 1,
           match_metadata = JObj [(''text'', JStr ''hello''),
                                  (''timestamp'', JStr ''2024-01-01T12:00:00.000Z'')]\<rparr>]"
  by (simp add: memory_vectorize_def stored_plain_def)

lemma sample_options:
  "JObj [(''topK'', JNum 5), (''returnMetadata'', JBool True),
         (''filter'', JObj [(''tag'', JStr ''x'')])]
   = JObj ([(''topK'', if property search_body ''topK'' = JUndefined then JNum 5
                       else property search_body ''topK''),
            (''returnMetadata'', JBool True)]
           @ (if truthy (property search_body ''filter'')
              then [(''filter'', property search_body ''filter'')] else []))"
  by (simp add: search_body_facts)

theorem search_passes_matches_through_witness:
  "property search_body ''query'' = JStr ''greeting''
   \<and> property search_body ''topK'' = JUndefined
   \<and> property search_body ''filter'' = JObj [(''tag'', JStr ''x'')]
   \<and> (\<exists>r results.
         handleSearch_vectorize good_runtime memory_vectorize request_search [stored_plain] =
           (Inr r, [stored_plain],
            [Fetch (embeddings_call ''Bearer test-api-key'' (JStr ''greeting'')),
             Query (JArr [JNum (1 / 10), JNum (- (1 / 5))])
               (JObj [(''topK'', JNum 5), (''returnMetadata'', JBool True),
                      (''filter'', JObj [(''tag'', JStr ''x'')])])])
       \<and> status r = 200
       \<and> body r = JsonText (JObj [(''query'', JStr ''greeting''), (''results'', JArr results)])
       \<and> length results = 1
       \<and> property (results ! 0) ''id'' = JStr ''4fzyo82mvyr''
       \<and> property (results ! 0) ''score'' = JNum 1)"
proof -
  have ne: "''greeting'' \<noteq> []" by simp
  note t = search_passes_matches_through [OF search_body_facts(1) test_key_is_bearer
      search_body_facts(2,3) ne good_runtime_facts(1,2,3) good_reply_embedding sample_options sample_query]
  from t search_body_facts(3,4,5) show ?thesis
    by fastforce
qed

lemma sample_search:
  "handleSearch_vectorize good_runtime memory_vectorize request_search [stored_plain] =
     (jsonResponse_vectorize
        (JObj [(''query'', JStr ''greeting''),
               (''results'', JArr [JObj [(''id'', JStr ''4fzyo82mvyr''),
                                         (''score'', JNum 1),
                                         (''text'', JStr ''hello'')]])]) 200,
      [stored_plain],
      [Fetch (embeddings_call ''Bearer test-api-key'' (JStr ''greeting'')),
       Query (JArr [JNum (1 / 10), JNum (- (1 / 5))])
         (JObj [(''topK'', JNum 5), (''returnMetadata'', JBool True),
                (''filter'', JObj [(''tag'', JStr ''x'')])])])"
  unfolding search_path [OF search_body_facts(1) test_key_is_bearer search_body_facts(2,3) _
      good_runtime_facts(1,2,3) good_reply_embedding sample_options, simplified]
  by (simp add: sample_query search_result_def opt_prop_def property_obj)

section \<open>The shape of the success responses\<close>

lemma errorResponse_vectorize_returns:
  "errorResponse_vectorize m st = Inr r \<Longrightarrow> status r = st"
  by (auto simp: errorResponse_vectorize_def jsonResponse_vectorize_def new_Response_def
      split: if_splits)

lemma errorResponse_kv_returns:
  "errorResponse_kv m st = Inr r \<Longrightarrow> status r = st"
  by (auto simp: errorResponse_kv_def jsonResponse_kv_def new_Response_def split: if_splits)

text \<open>
  Claim C4, against the code.  Whenever a create handler answers with status 200, the
  body is the object \<open>{id}\<close> and nothing else, in the worker backed by KV and in the
  worker backed by Vectorize alike: the latter echoes neither a message nor the merged
  metadata.
\<close>

theorem create_response_is_id_only:
  "(\<forall>r s' calls. handleEmbed_vectorize rt V request s = (Inr r, s', calls) \<and> status r = 200
      \<longrightarrow> body r = JsonText (JObj [(''id'', JStr (substring 2 15 (random36 rt)))]))
   \<and> (\<forall>r t' calls. handleEmbed_kv rt K request t = (Inr r, t', calls) \<and> status r = 200
      \<longrightarrow> body r = JsonText (JObj [(''id'', JStr (substring 2 10 (random36 rt)))]))"
proof (intro conjI allI impI)
  fix r s' calls
  assume "handleEmbed_vectorize rt V request s = (Inr r, s', calls) \<and> status r = 200"
  then show "body r = JsonText (JObj [(''id'', JStr (substring 2 15 (random36 rt)))])"
    unfolding handleEmbed_vectorize_def Let_def
    by (auto simp: errorResponse_vectorize_fields id_response_vectorize ok_def
        dest!: errorResponse_vectorize_returns split: option.splits sum.splits if_splits)
next
  fix r t' calls
  assume "handleEmbed_kv rt K request t = (Inr r, t', calls) \<and> status r = 200"
  then show "body r = JsonText (JObj [(''id'', JStr (substring 2 10 (random36 rt)))])"
    unfolding handleEmbed_kv_def Let_def
    by (auto simp: errorResponse_kv_fields id_response_kv ok_def
        split: option.splits sum.splits if_splits)
qed

theorem create_response_is_id_only_witness:
  "property hello_body ''metadata'' = JObj hello_metadata
   \<and> handleEmbed_vectorize good_runtime memory_vectorize request_hello [] =
       (Inr \<lparr>status = 200,
             headers = (''Content-Type'', ''application/json'') # CORS_HEADERS_vectorize,
             body = JsonText (JObj [(''id'', JStr ''4fzyo82mvyr'')])\<rparr>,
        [stored_hello],
        [Fetch (embeddings_call ''Bearer test-api-key'' (JStr ''hello'')),
         Upsert [stored_hello]])
   \<and> handleEmbed_kv good_runtime memory_kv request_plain [] =
       (Inr \<lparr>status = 200,
             headers = (''Content-Type'', ''application/json'') # CORS_HEADERS_kv,
             body = JsonText (JObj [(''id'', JStr ''4fzyo82m'')])\<rparr>,
        [(''4fzyo82m'', kv_plain)],
        [Fetch (embeddings_call ''Bearer test-api-key'' (JStr ''hello'')),
         KvPut ''4fzyo82m'' kv_plain])"
proof -
  obtain rv where rv: "jsonResponse_vectorize (JObj [(''id'', JStr ''4fzyo82mvyr'')]) 200 = Inr rv"
    and sv: "status rv = 200"
    and hv: "headers rv = (''Content-Type'', ''application/json'') # CORS_HEADERS_vectorize"
    by (simp add: id_response_vectorize)
  obtain rk where rk: "jsonResponse_kv (JObj [(''id'', JStr ''4fzyo82m'')]) 200 = Inr rk"
    and sk: "status rk = 200"
    and hk: "headers rk = (''Content-Type'', ''application/json'') # CORS_HEADERS_kv"
    by (simp add: id_response_kv)
  note v = create_response_is_id_only [of good_runtime memory_vectorize request_hello "[]",
      THEN conjunct1, rule_format, OF conjI, OF sample_create_hello [unfolded rv] sv,
      unfolded sample_ids]
  note k = create_response_is_id_only [of good_runtime _ request_plain _ memory_kv "[]",
      THEN conjunct2, rule_format, OF conjI, OF sample_create_kv [unfolded rk] sk,
      unfolded sample_ids]
  have "rv = \<lparr>status = 200,
             headers = (''Content-Type'', ''application/json'') # CORS_HEADERS_vectorize,
             body = JsonText (JObj [(''id'', JStr ''4fzyo82mvyr'')])\<rparr>"
    using v sv hv by (cases rv) simp
  moreover have "rk = \<lparr>status = 200,
             headers = (''Content-Type'', ''application/json'') # CORS_HEADERS_kv,
             body = JsonText (JObj [(''id'', JStr ''4fzyo82m'')])\<rparr>"
    using k sk hk by (cases rk) simp
  ultimately show ?thesis
    using sample_create_hello [unfolded rv] sample_create_kv [unfolded rk]
      request_hello_facts(4)
    by simp
qed

lemma result_shape:
  "\<exists>fields. json_of (search_result m) = JObj fields
      \<and> map_of fields ''metadata'' = None
      \<and> set (map fst fields) \<subseteq> {''id'', ''score'', ''text''}"
  by (simp add: search_result_def)

text \<open>
  Claim C2, against the code.  Whenever the search handler answers with status 200, the
  body is the object \<open>{query, results}\<close>: it has no \<open>total\<close>.  Every result is an object
  with keys among \<open>id\<close>, \<open>score\<close>, \<open>text\<close>, so without \<open>metadata\<close>.
\<close>

theorem search_response_is_query_and_results:
  "\<forall>r s' calls. handleSearch_vectorize rt V request s = (Inr r, s', calls) \<and> status r = 200
      \<longrightarrow> (\<exists>results.
             body r = JsonText (JObj [(''query'', property (json_or_empty request) ''query''),
                                      (''results'', JArr results)])
           \<and> (\<forall>i < length results. \<exists>fields. results ! i = JObj fields
                  \<and> map_of fields ''metadata'' = None
                  \<and> set (map fst fields) \<subseteq> {''id'', ''score'', ''text''}))"
proof (intro allI impI)
  fix r s' calls
  assume "handleSearch_vectorize rt V request s = (Inr r, s', calls) \<and> status r = 200"
  then obtain matches where
    "jsonResponse_vectorize
              (JObj [(''query'', property (json_or_empty request) ''query''),
                     (''results'', JArr (map search_result matches))]) 200 = Inr r"
    and "is_string (property (json_or_empty request) ''query'')"
    unfolding handleSearch_vectorize_def Let_def
    by (auto simp: errorResponse_vectorize_fields ok_def
        dest!: errorResponse_vectorize_returns split: option.splits sum.splits if_splits)
  then have b: "body r = JsonText (JObj [(''query'', property (json_or_empty request) ''query''),
                     (''results'', JArr (map (\<lambda>m. json_of (search_result m)) matches))])"
    by (cases "property (json_or_empty request) ''query''")
       (auto simp: jsonResponse_vectorize_200 JSON_stringify_def json_elems_results)
  show "\<exists>results.
             body r = JsonText (JObj [(''query'', property (json_or_empty request) ''query''),
                                      (''results'', JArr results)])
           \<and> (\<forall>i < length results. \<exists>fields. results ! i = JObj fields
                  \<and> map_of fields ''metadata'' = None
                  \<and> set (map fst fields) \<subseteq> {''id'', ''score'', ''text''})"
    using b result_shape by (intro exI conjI) (assumption, simp)
qed

theorem search_response_is_query_and_results_witness:
  "\<exists>r results.
     handleSearch_vectorize good_runtime memory_vectorize request_search [stored_plain] =
       (Inr r, [stored_plain],
        [Fetch (embeddings_call ''Bearer test-api-key'' (JStr ''greeting'')),
         Query (JArr [JNum (1 / 10), JNum (- (1 / 5))])
           (JObj [(''topK'', JNum 5), (''returnMetadata'', JBool True),
                  (''filter'', JObj [(''tag'', JStr ''x'')])])])
   \<and> status r = 200
   \<and> body r = JsonText (JObj [(''query'', JStr ''greeting''), (''results'', JArr results)])
   \<and> length results = 1
   \<and> (\<exists>fields. results ! 0 = JObj fields \<and> map_of fields ''metadata'' = None)"
proof -
  obtain r where r: "jsonResponse_vectorize
        (JObj [(''query'', JStr ''greeting''),
               (''results'', JArr [JObj [(''id'', JStr ''4fzyo82mvyr''),
                                         (''score'', JNum 1),
                                         (''text'', JStr ''hello'')]])]) 200 = Inr r"
    and st: "status r = 200"
    and bd: "body r = JsonText
        (JObj [(''query'', JStr ''greeting''),
               (''results'', JArr [JObj [(''id'', JStr ''4fzyo82mvyr''),
                                         (''score'', JNum 1),
                                         (''text'', JStr ''hello'')]])])"
    by (simp add: jsonResponse_vectorize_200 JSON_stringify_def)
  have q: "property (json_or_empty request_search) ''query'' = JStr ''greeting''"
    by (simp add: json_or_empty_def search_body_facts)
  note run = sample_search [unfolded r]
  note t = search_response_is_query_and_results [of good_runtime memory_vectorize
      request_search "[stored_plain]", rule_format, OF conjI, OF run st, unfolded q]
  then obtain results where
    b: "body r = JsonText (JObj [(''query'', JStr ''greeting''), (''results'', JArr results)])"
    and f: "\<forall>i < length results. \<exists>fields. results ! i = JObj fields
                  \<and> map_of fields ''metadata'' = None
                  \<and> set (map fst fields) \<subseteq> {''id'', ''score'', ''text''}"
    by blast
  from b bd have l: "length results = 1"
    by auto
  with f have "\<exists>fields. results ! 0 = JObj fields \<and> map_of fields ''metadata'' = None"
    by auto
  with b l run st show ?thesis by blast
qed

section \<open>Failure of the store\<close>

lemma sample_create_broken:
  "handleEmbed_vectorize good_runtime broken_vectorize request_plain () =
     (errorResponse_vectorize ''Failed to store embedding'' 500, (),
      [Fetch (embeddings_call ''Bearer test-api-key'' (JStr ''hello'')), Upsert [stored_plain]])"
  unfolding embed_vectorize_path [OF request_plain_facts(1) test_key_is_bearer
      request_plain_facts(2,3) _ good_runtime_facts(1-4), simplified]
  by (simp add: Let_def substring_def good_runtime_facts request_plain_facts default_to_def
      spread_def broken_vectorize_def stored_plain_def)

lemma sample_put_broken:
  "handleEmbed_kv good_runtime broken_kv request_plain () =
     (Inl (Error ''unavailable''), (),
      [Fetch (embeddings_call ''Bearer test-api-key'' (JStr ''hello'')),
       KvPut ''4fzyo82m'' kv_plain])"
  unfolding embed_kv_path [OF request_plain_facts(1) test_key_is_bearer
      request_plain_facts(2,3) _ good_runtime_facts(1-4), simplified]
  by (simp add: Let_def substring_def good_runtime_facts broken_kv_def kv_plain_def
      JSON_stringify_def good_embedding_def)

lemma sample_search_broken:
  "handleSearch_vectorize good_runtime broken_vectorize request_search () =
     (errorResponse_vectorize ''Search failed: unavailable'' 500, (),
      [Fetch (embeddings_call ''Bearer test-api-key'' (JStr ''greeting'')),
       Query (JArr [JNum (1 / 10), JNum (- (1 / 5))])
         (JObj [(''topK'', JNum 5), (''returnMetadata'', JBool True),
                (''filter'', JObj [(''tag'', JStr ''x'')])])])"
  unfolding search_path [OF search_body_facts(1) test_key_is_bearer search_body_facts(2,3) _
      good_runtime_facts(1,2,3) good_reply_embedding sample_options, simplified]
  by (simp add: broken_vectorize_def)

text \<open>
  Claim C5, as the code has it.  In the worker backed by Vectorize the store calls sit
  inside \<open>try\<close>: the get and delete handlers always return a response; a throwing
  \<open>getByIds\<close>, and a record whose metadata cannot be read, give 500
  \<open>Failed to retrieve embedding\<close>; a throwing \<open>deleteByIds\<close> gives 500
  \<open>Failed to delete embedding\<close>; a throwing \<open>upsert\<close> gives 500
  \<open>Failed to store embedding\<close>; a throwing \<open>query\<close> gives 500 \<open>Search failed\<close> with the
  error's message; and the call that threw is the handler's last.  The worker backed by
  KV has no \<open>try\<close>: when \<open>get\<close> throws, when the stored string is not JSON, and when
  \<open>put\<close> throws, the handler ends with that exception and returns no response.
\<close>

theorem vectorize_store_failures_are_caught:
  "(\<exists>r s' calls. handleGet_vectorize V ident s = (Inr r, s', calls))
   \<and> (\<exists>r s' calls. handleDelete_vectorize V ident s = (Inr r, s', calls))
   \<and> (\<forall>i e. i \<noteq> [] \<and> getByIds V [i] s = Inl e \<longrightarrow>
         (\<exists>r s'. handleGet_vectorize V (Some i) s = (Inr r, s', [GetByIds [i]])
            \<and> status r = 500
            \<and> body r = JsonText (JObj [(''error'', JStr ''Failed to retrieve embedding'')])))
   \<and> (\<forall>i v vs. i \<noteq> [] \<and> getByIds V [i] s = Inr (v # vs) \<and> is_nullish (vec_metadata v) \<longrightarrow>
         (\<exists>r s'. handleGet_vectorize V (Some i) s = (Inr r, s', [GetByIds [i]])
            \<and> status r = 500
            \<and> body r = JsonText (JObj [(''error'', JStr ''Failed to retrieve embedding'')])))
   \<and> (\<forall>i e. i \<noteq> [] \<and> deleteByIds V [i] s = Inl e \<longrightarrow>
         (\<exists>r s'. handleDelete_vectorize V (Some i) s = (Inr r, s', [DeleteByIds [i]])
            \<and> status r = 500
            \<and> body r = JsonText (JObj [(''error'', JStr ''Failed to delete embedding'')])))
   \<and> (\<forall>out s' calls stored e.
         handleEmbed_vectorize rt V request s = (out, s', calls)
         \<and> Upsert stored \<in> set calls \<and> upsert V stored s = Inl e \<longrightarrow>
         last calls = Upsert stored
         \<and> (\<exists>r. out = Inr r \<and> status r = 500
               \<and> body r = JsonText (JObj [(''error'', JStr ''Failed to store embedding'')])))
   \<and> (\<forall>out s' calls embedding opts e.
         handleSearch_vectorize rt V request s = (out, s', calls)
         \<and> Query embedding opts \<in> set calls \<and> query V embedding opts s = Inl e \<longrightarrow>
         last calls = Query embedding opts
         \<and> (\<exists>r. out = Inr r \<and> status r = 500
               \<and> body r = JsonText (JObj [(''error'',
                                           JStr (''Search failed: '' @ message rt e))])))
   \<and> (\<forall>i e. i \<noteq> [] \<and> kv_get K i t = Inl e \<longrightarrow>
         (\<exists>t'. handleGet_kv K (Some i) t = (Inl e, t', [KvGet i])))
   \<and> (\<forall>i stored e. i \<noteq> [] \<and> kv_get K i t = Inr (Some stored) \<and> \<not> empty_text stored
         \<and> JSON_parse stored = Inl e \<longrightarrow>
         (\<exists>t'. handleGet_kv K (Some i) t = (Inl e, t', [KvGet i])))
   \<and> (\<forall>out t' calls k v e.
         handleEmbed_kv rt K request t = (out, t', calls)
         \<and> KvPut k v \<in> set calls \<and> kv_put K k v t = Inl e \<longrightarrow>
         last calls = KvPut k v \<and> out = Inl e)"
proof -
  have a: "\<exists>r s' calls. handleGet_vectorize V ident s = (Inr r, s', calls)"
    by (simp add: handleGet_vectorize_def errorResponse_vectorize_fields
        jsonResponse_vectorize_200 split: option.splits sum.splits list.splits)
  have b: "\<exists>r s' calls. handleDelete_vectorize V ident s = (Inr r, s', calls)"
    by (simp add: handleDelete_vectorize_def errorResponse_vectorize_fields
        jsonResponse_vectorize_200 split: option.splits sum.splits)
  have c: "\<exists>r s'. handleGet_vectorize V (Some i) s = (Inr r, s', [GetByIds [i]])
            \<and> status r = 500
            \<and> body r = JsonText (JObj [(''error'', JStr ''Failed to retrieve embedding'')])"
    if "i \<noteq> [] \<and> getByIds V [i] s = Inl e" for i e
    using that by (simp add: handleGet_vectorize_def errorResponse_vectorize_fields)
  have d: "\<exists>r s'. handleGet_vectorize V (Some i) s = (Inr r, s', [GetByIds [i]])
            \<and> status r = 500
            \<and> body r = JsonText (JObj [(''error'', JStr ''Failed to retrieve embedding'')])"
    if "i \<noteq> [] \<and> getByIds V [i] s = Inr (v # vs) \<and> is_nullish (vec_metadata v)" for i v vs
    using that by (simp add: handleGet_vectorize_def get_prop_def errorResponse_vectorize_fields)
  have g: "\<exists>r s'. handleDelete_vectorize V (Some i) s = (Inr r, s', [DeleteByIds [i]])
            \<and> status r = 500
            \<and> body r = JsonText (JObj [(''error'', JStr ''Failed to delete embedding'')])"
    if "i \<noteq> [] \<and> deleteByIds V [i] s = Inl e" for i e
    using that by (simp add: handleDelete_vectorize_def errorResponse_vectorize_fields)
  have e: "last calls = Upsert stored
         \<and> (\<exists>r. out = Inr r \<and> status r = 500
               \<and> body r = JsonText (JObj [(''error'', JStr ''Failed to store embedding'')]))"
    if "handleEmbed_vectorize rt V request s = (out, s', calls)
         \<and> Upsert stored \<in> set calls \<and> upsert V stored s = Inl e" for out s' calls stored e
    using that unfolding handleEmbed_vectorize_def Let_def
    by (auto simp: errorResponse_vectorize_fields split: option.splits sum.splits if_splits)
  have f: "last calls = Query embedding opts
         \<and> (\<exists>r. out = Inr r \<and> status r = 500
               \<and> body r = JsonText (JObj [(''error'',
                                           JStr (''Search failed: '' @ message rt e))]))"
    if "handleSearch_vectorize rt V request s = (out, s', calls)
         \<and> Query embedding opts \<in> set calls \<and> query V embedding opts s = Inl e"
    for out s' calls embedding opts e
    using that unfolding handleSearch_vectorize_def Let_def
    by (auto simp: errorResponse_vectorize_fields split: option.splits sum.splits if_splits)
  have h: "\<exists>t'. handleGet_kv K (Some i) t = (Inl e, t', [KvGet i])"
    if "i \<noteq> [] \<and> kv_get K i t = Inl e" for i e
    using that by (simp add: handleGet_kv_def)
  have j: "\<exists>t'. handleGet_kv K (Some i) t = (Inl e, t', [KvGet i])"
    if "i \<noteq> [] \<and> kv_get K i t = Inr (Some stored) \<and> \<not> empty_text stored
         \<and> JSON_parse stored = Inl e" for i stored e
    using that by (simp add: handleGet_kv_def)
  have k: "last calls = KvPut k v \<and> out = Inl e"
    if "handleEmbed_kv rt K request t = (out, t', calls)
         \<and> KvPut k v \<in> set calls \<and> kv_put K k v t = Inl e" for out t' calls k v e
    using that unfolding handleEmbed_kv_def Let_def
    by (auto simp: errorResponse_kv_fields split: option.splits sum.splits if_splits)
  from c have C: "\<forall>i e. i \<noteq> [] \<and> getByIds V [i] s = Inl e \<longrightarrow>
         (\<exists>r s'. handleGet_vectorize V (Some i) s = (Inr r, s', [GetByIds [i]])
            \<and> status r = 500
            \<and> body r = JsonText (JObj [(''error'', JStr ''Failed to retrieve embedding'')]))"
    by (intro allI impI)
  from d have D: "\<forall>i v vs. i \<noteq> [] \<and> getByIds V [i] s = Inr (v # vs)
         \<and> is_nullish (vec_metadata v) \<longrightarrow>
         (\<exists>r s'. handleGet_vectorize V (Some i) s = (Inr r, s', [GetByIds [i]])
            \<and> status r = 500
            \<and> body r = JsonText (JObj [(''error'', JStr ''Failed to retrieve embedding'')]))"
    by (intro allI impI)
  from g have G: "\<forall>i e. i \<noteq> [] \<and> deleteByIds V [i] s = Inl e \<longrightarrow>
         (\<exists>r s'. handleDelete_vectorize V (Some i) s = (Inr r, s', [DeleteByIds [i]])
            \<and> status r = 500
            \<and> body r = JsonText (JObj [(''error'', JStr ''Failed to delete embedding'')]))"
    by (intro allI impI)
  from e have E: "\<forall>out s' calls stored e.
         handleEmbed_vectorize rt V request s = (out, s', calls)
         \<and> Upsert stored \<in> set calls \<and> upsert V stored s = Inl e \<longrightarrow>
         last calls = Upsert stored
         \<and> (\<exists>r. out = Inr r \<and> status r = 500
               \<and> body r = JsonText (JObj [(''error'', JStr ''Failed to store embedding'')]))"
    by (intro allI impI)
  from f have F: "\<forall>out s' calls embedding opts e.
         handleSearch_vectorize rt V request s = (out, s', calls)
         \<and> Query embedding opts \<in> set calls \<and> query V embedding opts s = Inl e \<longrightarrow>
         last calls = Query embedding opts
         \<and> (\<exists>r. out = Inr r \<and> status r = 500
               \<and> body r = JsonText (JObj [(''error'',
                                           JStr (''Search failed: '' @ message rt e))]))"
    by (intro allI impI)
  from h have H: "\<forall>i e. i \<noteq> [] \<and> kv_get K i t = Inl e \<longrightarrow>
         (\<exists>t'. handleGet_kv K (Some i) t = (Inl e, t', [KvGet i]))"
    by (intro allI impI)
  from j have J: "\<forall>i stored e. i \<noteq> [] \<and> kv_get K i t = Inr (Some stored) \<and> \<not> empty_text stored
         \<and> JSON_parse stored = Inl e \<longrightarrow>
         (\<exists>t'. handleGet_kv K (Some i) t = (Inl e, t', [KvGet i]))"
    by (intro allI impI)
  from k have K: "\<forall>out t' calls k v e.
         handleEmbed_kv rt K request t = (out, t', calls)
         \<and> KvPut k v \<in> set calls \<and> kv_put K k v t = Inl e \<longrightarrow>
         last calls = KvPut k v \<and> out = Inl e"
    by (intro allI impI)
  show ?thesis
    by (intro conjI) (rule a b C D G E F H J K)+
qed


theorem vectorize_store_failures_are_caught_witness:
  "getByIds broken_vectorize [''abc''] () = Inl (Error ''unavailable'')
   \<and> (\<exists>r s'. handleGet_vectorize broken_vectorize (Some ''abc'') () =
            (Inr r, s', [GetByIds [''abc'']])
          \<and> status r = 500
          \<and> body r = JsonText (JObj [(''error'', JStr ''Failed to retrieve embedding'')]))
   \<and> getByIds memory_vectorize [''abc''] [stored_bare] = Inr [stored_bare]
   \<and> is_nullish (vec_metadata stored_bare)
   \<and> (\<exists>r s'. handleGet_vectorize memory_vectorize (Some ''abc'') [stored_bare] =
            (Inr r, s', [GetByIds [''abc'']])
          \<and> status r = 500
          \<and> body r = JsonText (JObj [(''error'', JStr ''Failed to retrieve embedding'')]))
   \<and> deleteByIds broken_vectorize [''abc''] () = Inl (Error ''unavailable'')
   \<and> (\<exists>r s'. handleDelete_vectorize broken_vectorize (Some ''abc'') () =
            (Inr r, s', [DeleteByIds [''abc'']])
          \<and> status r = 500
          \<and> body r = JsonText (JObj [(''error'', JStr ''Failed to delete embedding'')]))
   \<and> upsert broken_vectorize [stored_plain] () = Inl (Error ''unavailable'')
   \<and> (\<exists>r. fst (handleEmbed_vectorize good_runtime broken_vectorize request_plain ()) = Inr r
          \<and> status r = 500
          \<and> body r = JsonText (JObj [(''error'', JStr ''Failed to store embedding'')]))
   \<and> (\<exists>r. fst (handleSearch_vectorize good_runtime broken_vectorize request_search ()) = Inr r
          \<and> status r = 500
          \<and> body r = JsonText (JObj [(''error'', JStr ''Search failed: unavailable'')]))
   \<and> kv_get broken_kv ''abc'' () = Inl (Error ''unavailable'')
   \<and> (\<exists>t'. handleGet_kv broken_kv (Some ''abc'') () =
            (Inl (Error ''unavailable''), t', [KvGet ''abc'']))
   \<and> kv_get memory_kv ''abc'' [(''abc'', PlainText ''not json'')] =
       Inr (Some (PlainText ''not json''))
   \<and> JSON_parse (PlainText ''not json'') = Inl SyntaxError
   \<and> (\<exists>t'. handleGet_kv memory_kv (Some ''abc'') [(''abc'', PlainText ''not json'')] =
            (Inl SyntaxError, t', [KvGet ''abc'']))
   \<and> kv_put broken_kv ''4fzyo82m'' kv_plain () = Inl (Error ''unavailable'')
   \<and> fst (handleEmbed_kv good_runtime broken_kv request_plain ()) = Inl (Error ''unavailable'')"
proof -
  let ?embedding = "JArr [JNum (1 / 10), JNum (- (1 / 5))]"
  let ?opts = "JObj [(''topK'', JNum 5), (''returnMetadata'', JBool True),
                     (''filter'', JObj [(''tag'', JStr ''x'')])]"
  let ?calls = "[Fetch (embeddings_call ''Bearer test-api-key'' (JStr ''hello'')),
                 Upsert [stored_plain]]"
  let ?qcalls = "[Fetch (embeddings_call ''Bearer test-api-key'' (JStr ''greeting'')),
                 Query ?embedding ?opts]"
  let ?kcalls = "[Fetch (embeddings_call ''Bearer test-api-key'' (JStr ''hello'')),
                 KvPut ''4fzyo82m'' kv_plain]"
  let ?junk = "[(''abc'', PlainText ''not json'')]"
  note t1 = vectorize_store_failures_are_caught [of broken_vectorize "Some ''abc''" "()"
      good_runtime request_plain broken_kv "()"]
  note t2 = vectorize_store_failures_are_caught [of memory_vectorize "Some ''abc''"
      "[stored_bare]" good_runtime request_plain memory_kv ?junk]
  note t3 = vectorize_store_failures_are_caught [of broken_vectorize "Some ''abc''" "()"
      good_runtime request_search broken_kv "()"]
  have abc: "''abc'' \<noteq> []" by simp
  have g: "getByIds broken_vectorize [''abc''] () = Inl (Error ''unavailable'')"
    by (simp add: broken_vectorize_def)
  have b: "getByIds memory_vectorize [''abc''] [stored_bare] = Inr [stored_bare]"
    by (simp add: memory_vectorize_def stored_bare_def)
  have n: "is_nullish (vec_metadata stored_bare)"
    by (simp add: stored_bare_def)
  have d: "deleteByIds broken_vectorize [''abc''] () = Inl (Error ''unavailable'')"
    by (simp add: broken_vectorize_def)
  have u: "upsert broken_vectorize [stored_plain] () = Inl (Error ''unavailable'')"
    by (simp add: broken_vectorize_def)
  have um: "Upsert [stored_plain] \<in> set ?calls" by simp
  have q: "query broken_vectorize ?embedding ?opts () = Inl (Error ''unavailable'')"
    by (simp add: broken_vectorize_def)
  have qm: "Query ?embedding ?opts \<in> set ?qcalls" by simp
  have kg: "kv_get broken_kv ''abc'' () = Inl (Error ''unavailable'')"
    by (simp add: broken_kv_def)
  have kj: "kv_get memory_kv ''abc'' ?junk = Inr (Some (PlainText ''not json''))"
    by (simp add: memory_kv_def)
  have ke: "\<not> empty_text (PlainText ''not json'')" by simp
  have ks: "JSON_parse (PlainText ''not json'') = Inl SyntaxError" by simp
  have kp: "kv_put broken_kv ''4fzyo82m'' kv_plain () = Inl (Error ''unavailable'')"
    by (simp add: broken_kv_def)
  have km: "KvPut ''4fzyo82m'' kv_plain \<in> set ?kcalls" by simp
  note r1 = t1 [THEN conjunct2, THEN conjunct2, THEN conjunct1, rule_format,
      OF conjI, OF abc g]
  note r2 = t2 [THEN conjunct2, THEN conjunct2, THEN conjunct2, THEN conjunct1, rule_format,
      OF conjI, OF abc conjI, OF b n]
  note r5 = t1 [THEN conjunct2, THEN conjunct2, THEN conjunct2, THEN conjunct2,
      THEN conjunct1, rule_format, OF conjI, OF abc d]
  note r3 = t1 [THEN conjunct2, THEN conjunct2, THEN conjunct2, THEN conjunct2,
      THEN conjunct2, THEN conjunct1, rule_format, OF conjI, OF sample_create_broken conjI,
      OF um u, THEN conjunct2]
  note r4 = t3 [THEN conjunct2, THEN conjunct2, THEN conjunct2, THEN conjunct2,
      THEN conjunct2, THEN conjunct2, THEN conjunct1, rule_format,
      OF conjI, OF sample_search_broken conjI, OF qm q, THEN conjunct2]
  note r6 = t1 [THEN conjunct2, THEN conjunct2, THEN conjunct2, THEN conjunct2,
      THEN conjunct2, THEN conjunct2, THEN conjunct2, THEN conjunct1, rule_format,
      OF conjI, OF abc kg]
  note r7 = t2 [THEN conjunct2, THEN conjunct2, THEN conjunct2, THEN conjunct2,
      THEN conjunct2, THEN conjunct2, THEN conjunct2, THEN conjunct2, THEN conjunct1,
      rule_format, OF conjI, OF abc conjI, OF kj conjI, OF ke ks]
  note r8 = t1 [THEN conjunct2, THEN conjunct2, THEN conjunct2, THEN conjunct2,
      THEN conjunct2, THEN conjunct2, THEN conjunct2, THEN conjunct2, THEN conjunct2,
      rule_format, OF conjI, OF sample_put_broken conjI, OF km kp, THEN conjunct2]
  have r3': "\<exists>r. fst (handleEmbed_vectorize good_runtime broken_vectorize request_plain ())
            = Inr r
          \<and> status r = 500
          \<and> body r = JsonText (JObj [(''error'', JStr ''Failed to store embedding'')])"
    using r3 by (simp only: sample_create_broken fst_conv)
  have r4': "\<exists>r. fst (handleSearch_vectorize good_runtime broken_vectorize request_search ())
            = Inr r
          \<and> status r = 500
          \<and> body r = JsonText (JObj [(''error'', JStr ''Search failed: unavailable'')])"
    using r4 by (simp only: sample_search_broken fst_conv message.simps) simp
  have r8': "fst (handleEmbed_kv good_runtime broken_kv request_plain ())
      = Inl (Error ''unavailable'')"
    using r8 by (simp only: sample_put_broken fst_conv)
  show ?thesis
    by (intro conjI) (rule g r1 b n r2 d r5 u r3' r4' kg r6 kj ks r7 kp r8')+
qed

text \<open>
  The claim as stated fails in the worker backed by KV, which has no \<open>try\<close>: a throwing
  \<open>get\<close>, a stored string that is not JSON, and a throwing \<open>put\<close> each leave the handler
  as an exception, not as a response.
\<close>

theorem vectorize_store_failures_are_caught_counterexample:
  "handleGet_kv broken_kv (Some ''abc'') () =
     (Inl (Error ''unavailable''), (), [KvGet ''abc''])
   \<and> handleGet_kv memory_kv (Some ''abc'') [(''abc'', PlainText ''not json'')] =
     (Inl SyntaxError, [(''abc'', PlainText ''not json'')], [KvGet ''abc''])
   \<and> handleEmbed_kv good_runtime broken_kv request_plain () =
     (Inl (Error ''unavailable''), (),
      [Fetch (embeddings_call ''Bearer test-api-key'' (JStr ''hello'')),
       KvPut ''4fzyo82m'' kv_plain])"
proof (intro conjI)
  show "handleGet_kv broken_kv (Some ''abc'') () =
     (Inl (Error ''unavailable''), (), [KvGet ''abc''])"
    by (simp add: handleGet_kv_def broken_kv_def)
  show "handleGet_kv memory_kv (Some ''abc'') [(''abc'', PlainText ''not json'')] =
     (Inl SyntaxError, [(''abc'', PlainText ''not json'')], [KvGet ''abc''])"
    by (simp add: handleGet_kv_def memory_kv_def)
  show "handleEmbed_kv good_runtime broken_kv request_plain () =
     (Inl (Error ''unavailable''), (),
      [Fetch (embeddings_call ''Bearer test-api-key'' (JStr ''hello'')),
       KvPut ''4fzyo82m'' kv_plain])"
    by (rule sample_put_broken)
qed

end
